theory Spec2Isabelle
  imports Main "HOL-Library.Word" "HOL-Library.AList"
begin

unbundle bit_operations_syntax

section \<open>Reflection types\<close>

text \<open>
  The compiler (\<^verbatim>\<open>class Compiler\<close>) works on the type objects of the reflection module
  (\<^verbatim>\<open>reflection.intType\<close>, \<^verbatim>\<open>reflection.uintptrType32\<close>, ...) and compares them by
  identity. The reflection module is not among the source files.
\<close>

datatype TypeKind =
  byteKind | sbyteKind | shortKind | ushortKind | intKind | uintKind | longKind | ulongKind
  | boolKind | floatKind | doubleKind | uintptrKind | voidKind

text \<open>
  Modelled from the spec: \<^verbatim>\<open>reflection.Type\<close> is missing from the sources. A type is a
  tagged variant with a \<open>size\<close> in bytes (a pointer has the size 4 or 8); a class instance
  type references its class. Two type objects are the same object when the records are
  equal.
\<close>

record Type =
  kind :: TypeKind
  sizeT :: nat
  underlyingClass :: "string option"

text \<open>
  Modelled from the spec: the type objects of the primitive kinds (missing from the
  sources), with the sizes of the data model: 8, 16, 32 and 64 bits for the integers, 32
  and 64 for the floats, one byte for bool, and the two pointer types.
\<close>

definition mkType :: "TypeKind \<Rightarrow> nat \<Rightarrow> Type" where
  "mkType k n = \<lparr>kind = k, sizeT = n, underlyingClass = None\<rparr>"

definition byteType :: Type where "byteType = mkType byteKind 1"
definition sbyteType :: Type where "sbyteType = mkType sbyteKind 1"
definition shortType :: Type where "shortType = mkType shortKind 2"
definition ushortType :: Type where "ushortType = mkType ushortKind 2"
definition intType :: Type where "intType = mkType intKind 4"
definition uintType :: Type where "uintType = mkType uintKind 4"
definition longType :: Type where "longType = mkType longKind 8"
definition ulongType :: Type where "ulongType = mkType ulongKind 8"
definition boolType :: Type where "boolType = mkType boolKind 1"
definition floatType :: Type where "floatType = mkType floatKind 4"
definition doubleType :: Type where "doubleType = mkType doubleKind 8"
definition uintptrType32 :: Type where "uintptrType32 = mkType uintptrKind 4"
definition uintptrType64 :: Type where "uintptrType64 = mkType uintptrKind 8"
definition voidType :: Type where "voidType = mkType voidKind 0"

lemmas type_defs =
  mkType_def byteType_def sbyteType_def shortType_def ushortType_def intType_def
  uintType_def longType_def ulongType_def boolType_def floatType_def doubleType_def
  uintptrType32_def uintptrType64_def voidType_def

text \<open>
  Modelled from the spec: the derived attributes of \<^verbatim>\<open>reflection.Type\<close> (missing from the
  sources). \<open>isInt\<close> is the test for a 32-bit integer and \<open>isLong\<close> the one for a 64-bit
  integer, a pointer counting by its size (\<^verbatim>\<open>compilePrefixUnary\<close> widens an operand of
  \<^verbatim>\<open>~\<close> that is neither, and \<^verbatim>\<open>maybeConvertValue\<close> narrows only to a target that is not
  \<open>isInt\<close>); the signed integers are sbyte, short, int and long; \<open>shift32\<close> is 32 minus the
  bit width and \<open>mask32\<close> the mask of the low bits, with bool one bit wide.
\<close>

definition isInt :: "Type \<Rightarrow> bool" where
  "isInt t = (kind t = intKind \<or> kind t = uintKind \<or> (kind t = uintptrKind \<and> sizeT t = 4))"

definition isLong :: "Type \<Rightarrow> bool" where
  "isLong t = (kind t = longKind \<or> kind t = ulongKind \<or> (kind t = uintptrKind \<and> sizeT t = 8))"

definition isSigned :: "Type \<Rightarrow> bool" where
  "isSigned t = (kind t = sbyteKind \<or> kind t = shortKind \<or> kind t = intKind \<or> kind t = longKind)"

definition bitwidth :: "Type \<Rightarrow> nat" where
  "bitwidth t = (if kind t = boolKind then 1 else 8 * sizeT t)"

definition shift32 :: "Type \<Rightarrow> int" where
  "shift32 t = 32 - int (bitwidth t)"

definition mask32 :: "Type \<Rightarrow> int" where
  "mask32 t = 2 ^ bitwidth t - 1"

section \<open>The IR built through the binaryen module\<close>

text \<open>
  The IR builder is an external collaborator. An expression is the tree of factory calls
  that built it. The repository's own helpers \<^verbatim>\<open>binaryen.typeOf\<close>, \<^verbatim>\<open>binaryen.valueOf\<close>
  and \<^verbatim>\<open>binaryen.categoryOf\<close> are not among the sources; a call of one of them is kept
  as the call, with its arguments (\<open>TypeOf\<close>, \<open>ValueOf\<close>, \<open>CategoryAdd\<close>, \<open>CategorySub\<close>).
\<close>

datatype BinaryenType = none | TypeOf Type int

datatype UnaryOp =
  I32TruncUF32 | I32TruncSF32 | I64TruncUF32 | I64TruncSF32
  | I32TruncUF64 | I32TruncSF64 | I64TruncUF64 | I64TruncSF64
  | F64Promote | F32Demote
  | F32ConvertUI32 | F32ConvertSI32 | F32ConvertUI64 | F32ConvertSI64
  | F64ConvertUI32 | F64ConvertSI32 | F64ConvertUI64 | F64ConvertSI64
  | I64ExtendS | I64ExtendU | I32Wrap
  | F32Neg | F64Neg | I32Eqz | I64Eqz

datatype BinaryOp =
  I32Shl | I32ShrS | I32And | I32Sub | I64Sub | I32Xor | I64Xor | F32Eq | F64Eq
  | CategoryAdd Type int | CategorySub Type int

text \<open>
  \<open>HostObject n\<close> stands for the AST node with id \<open>n\<close> handed to a factory where an
  expression handle is expected (the factories are untyped JavaScript at run time).
\<close>

datatype Expr =
  I32Const int
  | I64Const int int
  | F32Const int
  | F64Const int
  | ValueOf Type int
  | Unary UnaryOp Expr
  | Binary BinaryOp Expr Expr
  | GetLocal nat BinaryenType
  | SetLocal nat Expr
  | TeeLocal nat Expr
  | GetGlobal string BinaryenType
  | SetGlobal string Expr
  | Call string "Expr list" BinaryenType
  | Block string "Expr list"
  | Loop string Expr
  | If Expr Expr
  | Break string
  | Return Expr
  | Nop
  | Unreachable
  | HostObject nat

section \<open>Compiler state\<close>

datatype DiagnosticCategory = Warning | Error | Message

datatype DiagnosticArg = NoArg | TextArg string | ConversionArg Type Type

record Diagnostic =
  diagNode :: nat
  category :: DiagnosticCategory
  messageText :: string
  diagArg :: DiagnosticArg

text \<open>
  The JavaScript numbers that \<^verbatim>\<open>options.uintptrSize\<close> is read as: an integer, or
  \<^verbatim>\<open>NaN\<close>. In a condition a number counts as true unless it is 0 or \<^verbatim>\<open>NaN\<close>. The other
  numbers (fractions and the infinities) count as true and differ from 4 and from 8, as an
  integer such as 3 does; they are not values of this type.
\<close>

datatype JsNumber = Integer int | NaN

definition truthy :: "JsNumber \<Rightarrow> bool" where
  "truthy x = (case x of Integer n \<Rightarrow> n \<noteq> 0 | NaN \<Rightarrow> False)"

text \<open>\<^verbatim>\<open>interface CompilerOptions\<close>; an absent member is \<open>None\<close>.\<close>

record CompilerOptions =
  opt_uintptrSize :: "JsNumber option"
  opt_noLib :: "bool option"
  opt_silent :: "bool option"

record Variable =
  varName :: string
  varType :: Type
  varGlobal :: bool
  varConstant :: bool
  varIndex :: nat

record GlobalDecl =
  globalName :: string
  globalType :: BinaryenType
  globalMutable :: bool
  globalInit :: Expr

record FunctionType =
  ftName :: string
  ftResult :: BinaryenType
  ftParams :: "BinaryenType list"

record FunctionDecl =
  funcName :: string
  funcSignature :: FunctionType
  funcLocals :: "BinaryenType list"
  funcBody :: Expr

text \<open>
  A function handle (\<^verbatim>\<open>binaryen.Function\<close>) is the name the function was added under; a
  function type handle (\<^verbatim>\<open>binaryen.Signature\<close>) is the function type.
\<close>

text \<open>
  The binaryen module as far as the compiler writes to it: each \<^verbatim>\<open>add...\<close>, \<^verbatim>\<open>set...\<close>
  and \<^verbatim>\<open>removeExport\<close> call is an update of one member.
\<close>

record Module =
  modGlobals :: "GlobalDecl list"
  modFunctions :: "FunctionDecl list"
  modFunctionTypes :: "FunctionType list"
  modExports :: "(string \<times> string) list"
  modStart :: "string option"
  modMemory :: "(nat \<times> nat \<times> string) option"

record SourceFileId =
  fileName :: string
  isDeclarationFile :: bool

record Compiler =
  options :: CompilerOptions
  entryFile :: "SourceFileId option"
  libraryFile :: "SourceFileId option"
  diagnostics :: "Diagnostic list"
  module :: Module
  signatures :: "(string \<times> FunctionType) list"
  globalInitializers :: "Expr list"
  userStartFunction :: "string option"
  currentLocals :: "(string \<times> Variable) list"
  currentBreakContextNumber :: nat
  currentBreakContextDepth :: nat
  localIndex :: nat
  additionalLocals :: "BinaryenType list"
  uintptrType :: Type
  globals :: "(string \<times> Variable) list"
  enums :: "string list"
  classes :: "(string \<times> Type) list"
  reflectedTypes :: "nat \<Rightarrow> Type option"

text \<open>
  \<^verbatim>\<open>get uintptrSize(): number { return this.options.uintptrSize || 4; }\<close>: the option if it
  counts as true, else 4.
\<close>

definition uintptrSize :: "Compiler \<Rightarrow> int" where
  "uintptrSize c =
     (case opt_uintptrSize (options c) of
        None \<Rightarrow> 4
      | Some NaN \<Rightarrow> 4
      | Some (Integer n) \<Rightarrow> if truthy (Integer n) then n else 4)"

text \<open>
  \<^verbatim>\<open>info\<close>, \<^verbatim>\<open>warn\<close> and \<^verbatim>\<open>error\<close> add a diagnostic to the collection; that they also
  print it unless the compilation is silent is not part of the state.
\<close>

definition addDiagnostic ::
  "Compiler \<Rightarrow> DiagnosticCategory \<Rightarrow> nat \<Rightarrow> string \<Rightarrow> DiagnosticArg \<Rightarrow> Compiler" where
  "addDiagnostic c cat node msg arg =
     c\<lparr>diagnostics := diagnostics c @
          [\<lparr>diagNode = node, category = cat, messageText = msg, diagArg = arg\<rparr>]\<rparr>"

definition warn :: "Compiler \<Rightarrow> nat \<Rightarrow> string \<Rightarrow> DiagnosticArg \<Rightarrow> Compiler" where
  "warn c node msg arg = addDiagnostic c Warning node msg arg"

definition error :: "Compiler \<Rightarrow> nat \<Rightarrow> string \<Rightarrow> DiagnosticArg \<Rightarrow> Compiler" where
  "error c node msg arg = addDiagnostic c Error node msg arg"

definition setReflectedType :: "Compiler \<Rightarrow> nat \<Rightarrow> Type option \<Rightarrow> Compiler" where
  "setReflectedType c node t = c\<lparr>reflectedTypes := (reflectedTypes c)(node := t)\<rparr>"

definition getReflectedType :: "Compiler \<Rightarrow> nat \<Rightarrow> Type option" where
  "getReflectedType c node = reflectedTypes c node"

section \<open>The conversion engine\<close>

text \<open>
  The nested function \<^verbatim>\<open>illegalImplicitConversion\<close> reports the error and sets the
  captured \<^verbatim>\<open>explicit\<close> to true; here it returns the new state and the new flag.
\<close>

definition illegalImplicitConversion ::
  "Compiler \<Rightarrow> nat \<Rightarrow> Type \<Rightarrow> Type \<Rightarrow> Compiler \<times> bool" where
  "illegalImplicitConversion c node fromType toType =
     (error c node ''Illegal implicit conversion'' (ConversionArg fromType toType), True)"

definition unlessExplicit ::
  "bool \<Rightarrow> Compiler \<Rightarrow> nat \<Rightarrow> Type \<Rightarrow> Type \<Rightarrow> Compiler \<times> bool" where
  "unlessExplicit explicit c node fromType toType =
     (if \<not> explicit then illegalImplicitConversion c node fromType toType else (c, explicit))"

text \<open>
  The tail of \<^verbatim>\<open>maybeConvertValue\<close> after its chain of \<^verbatim>\<open>if\<close>s (the part under the
  comment \<^verbatim>\<open>// int to other int\<close>), reached by every path that has not returned.
\<close>

definition intToOtherInt ::
  "Compiler \<Rightarrow> nat \<Rightarrow> Expr \<Rightarrow> Type \<Rightarrow> Type \<Rightarrow> bool \<Rightarrow> Expr \<times> Compiler" where
  "intToOtherInt c node expr fromType toType explicit =
     (if sizeT fromType < sizeT toType \<or> isInt toType then (expr, c)
      else
        let (c1, explicit1) = unlessExplicit explicit c node fromType toType in
        if isSigned toType then
          (Binary I32Shl
             (Binary I32ShrS expr (I32Const (shift32 toType)))
             (I32Const (shift32 toType)), c1)
        else
          (Binary I32And expr (I32Const (mask32 toType)), c1))"

function maybeConvertValue ::
  "Compiler \<Rightarrow> nat \<Rightarrow> Expr \<Rightarrow> Type \<Rightarrow> Type \<Rightarrow> bool \<Rightarrow> Expr \<times> Compiler" where
  "maybeConvertValue c node expr fromType toType explicit =
     (if kind fromType = kind toType then (expr, c)
      else
        let ca = (if \<not> explicit \<and> uintptrSize c = 4 \<and> kind fromType = uintptrKind \<and> isInt toType
                  then warn c node
                    ''Implicit conversion from 'uintptr' to 'uint' will fail when targeting WASM64'' NoArg
                  else c);
            cb = (if \<not> explicit \<and> uintptrSize ca = 8 \<and> isLong fromType \<and> kind toType = uintptrKind
                  then warn ca node
                    ''Implicit conversion from 'ulong' to 'uintptr' will fail when targeting WASM32'' NoArg
                  else ca);
            c0 = setReflectedType cb node (Some toType)
        in
        if fromType = floatType then
          (let (c1, explicit1) =
                 (if \<not> explicit \<and> toType \<noteq> doubleType
                  then illegalImplicitConversion c0 node fromType toType else (c0, explicit))
           in
           if toType \<in> {byteType, ushortType, uintType, uintptrType32, boolType} then
             maybeConvertValue c1 node (Unary I32TruncUF32 expr) intType toType explicit1
           else if toType \<in> {sbyteType, shortType, intType} then
             maybeConvertValue c1 node (Unary I32TruncSF32 expr) intType toType explicit1
           else if toType \<in> {uintptrType64, ulongType} then (Unary I64TruncUF32 expr, c1)
           else if toType = longType then (Unary I64TruncSF32 expr, c1)
           else if toType = doubleType then (Unary F64Promote expr, c1)
           else intToOtherInt c1 node expr fromType toType explicit1)
        else if fromType = doubleType then
          (let (c1, explicit1) = unlessExplicit explicit c0 node fromType toType
           in
           if toType \<in> {byteType, ushortType, uintType, uintptrType32, boolType} then
             maybeConvertValue c1 node (Unary I32TruncUF64 expr) intType toType explicit1
           else if toType \<in> {sbyteType, shortType, intType} then
             maybeConvertValue c1 node (Unary I32TruncSF64 expr) intType toType explicit1
           else if toType \<in> {ulongType, uintptrType64} then (Unary I64TruncUF64 expr, c1)
           else if toType = longType then (Unary I64TruncSF64 expr, c1)
           else if toType = floatType then (Unary F32Demote expr, c1)
           else intToOtherInt c1 node expr fromType toType explicit1)
        else if toType = floatType then
          (if fromType \<in> {uintType, uintptrType32} then
             (Unary F32ConvertUI32 expr, fst (unlessExplicit explicit c0 node fromType toType))
           else if fromType \<in> {byteType, ushortType, boolType} then
             (Unary F32ConvertUI32 expr, c0)
           else if fromType = intType then
             (Unary F32ConvertSI32 expr, fst (unlessExplicit explicit c0 node fromType toType))
           else if fromType \<in> {sbyteType, shortType} then
             (Unary F32ConvertSI32 expr, c0)
           else if fromType \<in> {ulongType, uintptrType64} then
             (Unary F32ConvertUI64 expr, fst (unlessExplicit explicit c0 node fromType toType))
           else if fromType = longType then
             (Unary F32ConvertSI64 expr, fst (unlessExplicit explicit c0 node fromType toType))
           else intToOtherInt c0 node expr fromType toType explicit)
        else if toType = doubleType then
          (if fromType \<in> {uintType, uintptrType32, byteType, ushortType, boolType} then
             (Unary F64ConvertUI32 expr, c0)
           else if fromType \<in> {intType, sbyteType, shortType} then
             (Unary F64ConvertSI32 expr, c0)
           else if fromType \<in> {ulongType, uintptrType64} then
             (Unary F64ConvertUI64 expr, fst (unlessExplicit explicit c0 node fromType toType))
           else if fromType = longType then
             (Unary F64ConvertSI64 expr, fst (unlessExplicit explicit c0 node fromType toType))
           else intToOtherInt c0 node expr fromType toType explicit)
        else if isInt fromType \<and> isLong toType then
          (if isSigned toType then (Unary I64ExtendS expr, c0)
           else (Unary I64ExtendU expr, c0))
        else if isLong fromType \<and> isInt toType then
          (let (c1, explicit1) = unlessExplicit explicit c0 node fromType toType
           in intToOtherInt c1 node (Unary I32Wrap expr)
                (if isSigned fromType then intType else uintType) toType explicit1)
        else intToOtherInt c0 node expr fromType toType explicit)"
  by pat_completeness auto
termination
  by (relation "measure (\<lambda>(c, node, expr, fromType, toType, explicit).
        if fromType = floatType \<or> fromType = doubleType then 1 else 0)")
     (auto simp: type_defs)

declare maybeConvertValue.simps [simp del]


section \<open>Construction\<close>

datatype error = JsError string | TypeError

definition emptyModule :: Module where
  "emptyModule = \<lparr>modGlobals = [], modFunctions = [], modFunctionTypes = [], modExports = [],
     modStart = None, modMemory = None\<rparr>"

definition noOptions :: CompilerOptions where
  "noOptions = \<lparr>opt_uintptrSize = None, opt_noLib = None, opt_silent = None\<rparr>"

text \<open>
  The members as the class's field initialisers leave them, before the constructor body.
  \<^verbatim>\<open>currentLocals\<close> has no initialiser in the class (it is set by
  \<^verbatim>\<open>compileFunctionOrMethod\<close>); it starts as the empty map here.
\<close>

definition fieldInitializers :: "CompilerOptions \<Rightarrow> Module \<Rightarrow> Type \<Rightarrow> Compiler" where
  "fieldInitializers opts m ptr =
     \<lparr>options = opts, entryFile = None, libraryFile = None, diagnostics = [], module = m,
      signatures = [], globalInitializers = [], userStartFunction = None, currentLocals = [],
      currentBreakContextNumber = 0, currentBreakContextDepth = 0, localIndex = 0,
      additionalLocals = [], uintptrType = ptr, globals = [], enums = [], classes = [],
      reflectedTypes = (\<lambda>n. None)\<rparr>"

text \<open>
  The constructor's loop over the source files, from the last to the first: the first
  declaration file ends as the library file, the last other file as the entry file.
\<close>

fun assignFiles :: "SourceFileId list \<Rightarrow> Compiler \<Rightarrow> Compiler" where
  "assignFiles [] c = c"
| "assignFiles (f # fs) c =
     assignFiles fs
       (if isDeclarationFile f then c\<lparr>libraryFile := Some f\<rparr>
        else if entryFile c = None then c\<lparr>entryFile := Some f\<rparr>
        else c)"

text \<open>
  \<^verbatim>\<open>constructor(program, options?)\<close>. \<open>lib\<close> is the module that
  \<^verbatim>\<open>binaryen.readBinary(mallocWasm)\<close> returns for the bundled allocator blob; \<open>files\<close>
  is \<^verbatim>\<open>program.getSourceFiles()\<close>.
\<close>

definition newCompiler ::
  "Module \<Rightarrow> SourceFileId list \<Rightarrow> CompilerOptions option \<Rightarrow> error + Compiler" where
  "newCompiler lib files given =
     (let opts = (case given of None \<Rightarrow> noOptions | Some x \<Rightarrow> x) in
      if (case opt_uintptrSize opts of
            None \<Rightarrow> False
          | Some x \<Rightarrow> truthy x \<and> x \<noteq> Integer 4 \<and> x \<noteq> Integer 8)
      then Inl (JsError ''unsupported uintptrSize'')
      else
        let m = (if opt_noLib opts = Some True then emptyModule else lib);
            c = fieldInitializers opts m voidType;
            c1 = c\<lparr>uintptrType := (if uintptrSize c = 4 then uintptrType32 else uintptrType64)\<rparr>
        in Inr (assignFiles (rev files) c1))"

section \<open>Value of the narrowing code\<close>

text \<open>
  The value of an IR expression is fixed by the WebAssembly semantics, not by this
  repository. For the instructions that integer narrowing emits, on 32-bit words:
  \<^verbatim>\<open>i32.shl\<close> and \<^verbatim>\<open>i32.shr_s\<close> take the shift count modulo 32, \<^verbatim>\<open>i32.shr_s\<close> copies
  the sign bit. Every other expression has no value here.
\<close>

fun evalI32 :: "Expr \<Rightarrow> 32 word option" where
  "evalI32 (I32Const n) = Some (word_of_int n)"
| "evalI32 (Binary I32Shl a b) =
     (case (evalI32 a, evalI32 b) of
        (Some x, Some y) \<Rightarrow> Some (push_bit (unat y mod 32) x)
      | _ \<Rightarrow> None)"
| "evalI32 (Binary I32ShrS a b) =
     (case (evalI32 a, evalI32 b) of
        (Some x, Some y) \<Rightarrow> Some (signed_drop_bit (unat y mod 32) x)
      | _ \<Rightarrow> None)"
| "evalI32 (Binary I32And a b) =
     (case (evalI32 a, evalI32 b) of
        (Some x, Some y) \<Rightarrow> Some (x AND y)
      | _ \<Rightarrow> None)"
| "evalI32 _ = None"

text \<open>The integer types that live in a 32-bit IR value, and those narrower than 32 bits.\<close>

definition int32Family :: "Type set" where
  "int32Family =
     {boolType, byteType, sbyteType, shortType, ushortType, intType, uintType, uintptrType32}"

definition narrowTypes :: "Type set" where
  "narrowTypes = {boolType, byteType, sbyteType, shortType, ushortType}"


section \<open>Numbers in strings\<close>

text \<open>
  String concatenation with a number (\<^verbatim>\<open>originalName + "." + alternative\<close>) writes a
  natural number in decimal.
\<close>

definition digitChar :: "nat \<Rightarrow> char" where
  "digitChar d = ''0123456789'' ! d"

function numberToString :: "nat \<Rightarrow> string" where
  "numberToString n =
     (if n < 10 then [digitChar n]
      else numberToString (n div 10) @ [digitChar (n mod 10)])"
  by pat_completeness auto
termination
  by (relation "measure id") auto

declare numberToString.simps [simp del]

lemma numberToString_bound: "n < 10 ^ length (numberToString n)"
proof (induction n rule: numberToString.induct)
  case (1 n)
  show ?case
  proof (cases "n < 10")
    case True
    then show ?thesis by (subst numberToString.simps) simp
  next
    case False
    then have "n div 10 < 10 ^ length (numberToString (n div 10))" using "1" by simp
    then have "n < 10 * 10 ^ length (numberToString (n div 10))" by linarith
    with False show ?thesis by (subst numberToString.simps) simp
  qed
qed

section \<open>Break contexts\<close>




section \<open>Local variables\<close>

text \<open>
  The \<^verbatim>\<open>while\<close> loop of \<^verbatim>\<open>onVariable\<close>, on its two variables \<^verbatim>\<open>name\<close> and
  \<^verbatim>\<open>alternative\<close>. It ends because the candidate names grow beyond every name in use.
\<close>

definition namesFrom :: "(string \<times> Variable) list \<Rightarrow> string \<Rightarrow> nat \<Rightarrow> nat set" where
  "namesFrom locals originalName a =
     {k. a \<le> k \<and> map_of locals (originalName @ ''.'' @ numberToString k) \<noteq> None}"

lemma namesFrom_finite: "finite (namesFrom locals originalName a)"
proof -
  define L where "L = Max (insert 0 (length ` fst ` set locals))"
  have "k < 10 ^ L" if "k \<in> namesFrom locals originalName a" for k
  proof -
    from that have "originalName @ ''.'' @ numberToString k \<in> fst ` set locals"
      by (auto simp: namesFrom_def dest: map_of_SomeD intro: rev_image_eqI)
    then have "length (originalName @ ''.'' @ numberToString k)
        \<in> insert 0 (length ` fst ` set locals)"
      by blast
    then have "length (originalName @ ''.'' @ numberToString k) \<le> L"
      unfolding L_def by (intro Max_ge) simp_all
    then have "length (numberToString k) \<le> L" by simp
    then have "(10::nat) ^ length (numberToString k) \<le> 10 ^ L"
      by (intro power_increasing) auto
    with numberToString_bound [of k] show ?thesis by linarith
  qed
  then have "namesFrom locals originalName a \<subseteq> {..< 10 ^ L}" by auto
  then show ?thesis by (rule finite_subset) simp
qed

lemma namesFrom_step:
  "namesFrom locals originalName a =
     (if map_of locals (originalName @ ''.'' @ numberToString a) \<noteq> None
      then insert a (namesFrom locals originalName (Suc a))
      else namesFrom locals originalName (Suc a))"
  by (auto simp: namesFrom_def Suc_le_eq le_less)

function uniqueName :: "(string \<times> Variable) list \<Rightarrow> string \<Rightarrow> string \<Rightarrow> nat \<Rightarrow> string" where
  "uniqueName locals originalName name alternative =
     (if map_of locals name \<noteq> None
      then uniqueName locals originalName
             (originalName @ ''.'' @ numberToString alternative) (alternative + 1)
      else name)"
  by pat_completeness auto
termination
proof (relation "measure (\<lambda>(locals, originalName, name, alternative).
          (if map_of locals name \<noteq> None then 1 else 0) +
          card (namesFrom locals originalName alternative))", goal_cases)
  case 1
  show ?case by simp
next
  case (2 locals originalName name alternative)
  have fin: "finite (namesFrom locals originalName (Suc alternative))"
    by (rule namesFrom_finite)
  have notin: "alternative \<notin> namesFrom locals originalName (Suc alternative)"
    by (simp add: namesFrom_def)
  have step: "namesFrom locals originalName alternative =
     (if map_of locals (originalName @ ''.'' @ numberToString alternative) \<noteq> None
      then insert alternative (namesFrom locals originalName (Suc alternative))
      else namesFrom locals originalName (Suc alternative))"
    by (rule namesFrom_step)
  show ?case
    using 2 fin notin by (simp add: step)
qed

declare uniqueName.simps [simp del]

text \<open>
  \<^verbatim>\<open>onVariable\<close>, the closure that \<^verbatim>\<open>compileFunctionOrMethod\<close> installs; its captured
  variables \<^verbatim>\<open>localIndex\<close> and \<^verbatim>\<open>additionalLocals\<close> are members of the state. It returns
  the slot index of the new local. \<^verbatim>\<open>currentLocals\<close> is read as the map of the entries
  that were stored in it.
\<close>

definition onVariable :: "Compiler \<Rightarrow> string \<Rightarrow> Type \<Rightarrow> nat \<times> Compiler" where
  "onVariable c originalName type =
     (let name = uniqueName (currentLocals c) originalName originalName 1;
          v = \<lparr>varName = name, varType = type, varGlobal = False, varConstant = False,
               varIndex = localIndex c\<rparr>
      in (localIndex c,
          c\<lparr>currentLocals := AList.update name v (currentLocals c),
            additionalLocals := additionalLocals c @ [TypeOf type (uintptrSize c)],
            localIndex := localIndex c + 1\<rparr>))"

section \<open>The start function\<close>

definition setStart :: "Module \<Rightarrow> string \<Rightarrow> Module" where
  "setStart m f = m\<lparr>modStart := Some f\<rparr>"

definition getFunctionType :: "Module \<Rightarrow> BinaryenType \<Rightarrow> BinaryenType list \<Rightarrow> FunctionType option" where
  "getFunctionType m r ps = find (\<lambda>t. ftResult t = r \<and> ftParams t = ps) (modFunctionTypes m)"

definition addFunctionType ::
  "Module \<Rightarrow> string \<Rightarrow> BinaryenType \<Rightarrow> BinaryenType list \<Rightarrow> FunctionType \<times> Module" where
  "addFunctionType m name r ps =
     (let t = \<lparr>ftName = name, ftResult = r, ftParams = ps\<rparr>
      in (t, m\<lparr>modFunctionTypes := modFunctionTypes m @ [t]\<rparr>))"

definition addFunction ::
  "Module \<Rightarrow> string \<Rightarrow> FunctionType \<Rightarrow> BinaryenType list \<Rightarrow> Expr \<Rightarrow> string \<times> Module" where
  "addFunction m name sig locals body =
     (name, m\<lparr>modFunctions := modFunctions m @
        [\<lparr>funcName = name, funcSignature = sig, funcLocals = locals, funcBody = body\<rparr>]\<rparr>)"

text \<open>
  The signature lookup that \<^verbatim>\<open>maybeCompileStartFunction\<close> and \<^verbatim>\<open>initializeLibrary\<close>
  share: the cached signature, else the module's function type of that shape, else a
  new function type; the result is cached under the identifier.
\<close>

definition obtainSignature ::
  "Compiler \<Rightarrow> string \<Rightarrow> BinaryenType \<Rightarrow> BinaryenType list \<Rightarrow> FunctionType \<times> Compiler" where
  "obtainSignature c ident r ps =
     (case map_of (signatures c) ident of
        Some sig \<Rightarrow> (sig, c)
      | None \<Rightarrow>
          (case getFunctionType (module c) r ps of
             Some sig \<Rightarrow> (sig, c\<lparr>signatures := AList.update ident sig (signatures c)\<rparr>)
           | None \<Rightarrow>
               let (sig, m) = addFunctionType (module c) ident r ps
               in (sig, c\<lparr>signatures := AList.update ident sig (signatures c), module := m\<rparr>)))"

definition maybeCompileStartFunction :: "Compiler \<Rightarrow> Compiler" where
  "maybeCompileStartFunction c =
     (if length (globalInitializers c) = 0 then
        (case userStartFunction c of
           Some f \<Rightarrow> c\<lparr>module := setStart (module c) f\<rparr>
         | None \<Rightarrow> c)
      else
        let body = globalInitializers c @
                   (if userStartFunction c \<noteq> None then [Call ''start'' [] none] else []);
            (sig, c1) = obtainSignature c ''v'' none [];
            (f, m) = addFunction (module c1)
                       (if userStartFunction c \<noteq> None
                        then ''executeGlobalInitializersAndCallStart''
                        else ''executeGlobalInitalizers'')
                       sig [] (Block [] body)
        in c1\<lparr>module := setStart m f\<rparr>)"


section \<open>The syntax tree\<close>

text \<open>
  The parser is an external collaborator; a node is kept with an id (its identity, under
  which a reflected type is attached to it) and with the children that the functions
  below read. A node whose lowering is not among the source files has no children here.
\<close>

datatype PrefixOperator =
  ExclamationToken | PlusToken | MinusToken | TildeToken | PlusPlusToken | MinusMinusToken
  | OtherOperator string

datatype Expression =
  Identifier nat string
  | PrefixUnaryExpression nat PrefixOperator Expression
  | TrueKeyword nat
  | FalseKeyword nat
  | NullKeyword nat
  | ParenthesizedExpression nat
  | AsExpression nat
  | BinaryExpression nat
  | PostfixUnaryExpression nat
  | PropertyAccessExpression nat
  | ElementAccessExpression nat
  | ConditionalExpression nat
  | CallExpression nat
  | NewExpression nat
  | NumericLiteral nat
  | OtherExpression nat string

fun exprId :: "Expression \<Rightarrow> nat" where
  "exprId (Identifier n _) = n"
| "exprId (PrefixUnaryExpression n _ _) = n"
| "exprId (TrueKeyword n) = n"
| "exprId (FalseKeyword n) = n"
| "exprId (NullKeyword n) = n"
| "exprId (ParenthesizedExpression n) = n"
| "exprId (AsExpression n) = n"
| "exprId (BinaryExpression n) = n"
| "exprId (PostfixUnaryExpression n) = n"
| "exprId (PropertyAccessExpression n) = n"
| "exprId (ElementAccessExpression n) = n"
| "exprId (ConditionalExpression n) = n"
| "exprId (CallExpression n) = n"
| "exprId (NewExpression n) = n"
| "exprId (NumericLiteral n) = n"
| "exprId (OtherExpression n _) = n"

text \<open>
  A symbol of the type checker with its declarations. A declaration carries the name of
  its own symbol (if it has one), its source file and, when it is a type alias
  declaration whose type is a type reference, what \<^verbatim>\<open>checker.getSymbolAtLocation\<close>
  answers for that reference.
\<close>

datatype Symbol = Symbol string "Declaration list"
and Declaration = Declaration "string option" SourceFileId "Symbol option option"

datatype TypeNode =
  VoidKeyword nat
  | TypeReference nat string "Symbol option"
  | OtherTypeNode nat string

record VariableDeclaration =
  declNameNode :: nat
  declSymbol :: "string option"
  declType :: "TypeNode option"
  declInitializer :: "Expression option"

text \<open>\<open>BlockNode\<close> is \<^verbatim>\<open>SyntaxKind.Block\<close> (the IR has a block of its own).\<close>

datatype Statement =
  EndOfFileToken nat
  | InterfaceDeclaration nat
  | TypeAliasDeclaration nat
  | ImportDeclaration nat
  | VariableStatement nat bool "VariableDeclaration list"
  | FunctionDeclaration nat
  | ClassDeclaration nat
  | EnumDeclaration nat
  | WhileStatement nat Expression "Statement option"
  | EmptyStatement nat
  | IfStatement nat
  | SwitchStatement nat
  | DoStatement nat
  | ForStatement nat
  | BlockNode nat
  | BreakStatement nat
  | ContinueStatement nat
  | ExpressionStatement nat
  | ReturnStatement nat
  | OtherStatement nat string

fun stmtId :: "Statement \<Rightarrow> nat" where
  "stmtId (EndOfFileToken n) = n"
| "stmtId (InterfaceDeclaration n) = n"
| "stmtId (TypeAliasDeclaration n) = n"
| "stmtId (ImportDeclaration n) = n"
| "stmtId (VariableStatement n _ _) = n"
| "stmtId (FunctionDeclaration n) = n"
| "stmtId (ClassDeclaration n) = n"
| "stmtId (EnumDeclaration n) = n"
| "stmtId (WhileStatement n _ _) = n"
| "stmtId (EmptyStatement n) = n"
| "stmtId (IfStatement n) = n"
| "stmtId (SwitchStatement n) = n"
| "stmtId (DoStatement n) = n"
| "stmtId (ForStatement n) = n"
| "stmtId (BlockNode n) = n"
| "stmtId (BreakStatement n) = n"
| "stmtId (ContinueStatement n) = n"
| "stmtId (ExpressionStatement n) = n"
| "stmtId (ReturnStatement n) = n"
| "stmtId (OtherStatement n _) = n"

text \<open>\<^verbatim>\<open>typescript.SyntaxKind[node.kind]\<close>, the argument of the diagnostics for unsupported nodes.\<close>

fun stmtKindName :: "Statement \<Rightarrow> string" where
  "stmtKindName (EndOfFileToken _) = ''EndOfFileToken''"
| "stmtKindName (InterfaceDeclaration _) = ''InterfaceDeclaration''"
| "stmtKindName (TypeAliasDeclaration _) = ''TypeAliasDeclaration''"
| "stmtKindName (ImportDeclaration _) = ''ImportDeclaration''"
| "stmtKindName (VariableStatement _ _ _) = ''VariableStatement''"
| "stmtKindName (FunctionDeclaration _) = ''FunctionDeclaration''"
| "stmtKindName (ClassDeclaration _) = ''ClassDeclaration''"
| "stmtKindName (EnumDeclaration _) = ''EnumDeclaration''"
| "stmtKindName (WhileStatement _ _ _) = ''WhileStatement''"
| "stmtKindName (EmptyStatement _) = ''EmptyStatement''"
| "stmtKindName (IfStatement _) = ''IfStatement''"
| "stmtKindName (SwitchStatement _) = ''SwitchStatement''"
| "stmtKindName (DoStatement _) = ''DoStatement''"
| "stmtKindName (ForStatement _) = ''ForStatement''"
| "stmtKindName (BlockNode _) = ''Block''"
| "stmtKindName (BreakStatement _) = ''BreakStatement''"
| "stmtKindName (ContinueStatement _) = ''ContinueStatement''"
| "stmtKindName (ExpressionStatement _) = ''ExpressionStatement''"
| "stmtKindName (ReturnStatement _) = ''ReturnStatement''"
| "stmtKindName (OtherStatement _ k) = k"

record SourceFile =
  fileId :: SourceFileId
  statements :: "Statement list"

text \<open>
  What the compiler calls and the source files do not contain: the lowerers of the
  \<^verbatim>\<open>statements\<close> and \<^verbatim>\<open>expressions\<close> modules other than \<^verbatim>\<open>compileWhile\<close>,
  \<^verbatim>\<open>compilePrefixUnary\<close> and \<^verbatim>\<open>compileIdentifier\<close>, and the reflection templates behind
  \<^verbatim>\<open>initializeFunction\<close>, \<^verbatim>\<open>initializeClass\<close> and \<^verbatim>\<open>initializeEnum\<close>. They are
  parameters of the model; \<open>Inl\<close> is a thrown error.
\<close>

record Lowerers =
  lowerStatement :: "Compiler \<Rightarrow> Statement \<Rightarrow> error + Expr \<times> Compiler"
  lowerExpression :: "Compiler \<Rightarrow> Expression \<Rightarrow> Type \<Rightarrow> error + Expr \<times> Compiler"
  initializeDeclaration :: "Compiler \<Rightarrow> SourceFileId \<Rightarrow> Statement \<Rightarrow> error + Compiler"

section \<open>Name mangling\<close>

text \<open>
  Node's \<^verbatim>\<open>path\<close> module is external: its functions are a parameter. The separator
  \<^verbatim>\<open>path.sep\<close> is one character.
\<close>

record PathModule =
  relative :: "string \<Rightarrow> string \<Rightarrow> string"
  dirname :: "string \<Rightarrow> string"
  normalize :: "string \<Rightarrow> string"
  sep :: char

text \<open>The characters that \<^verbatim>\<open>replace(/[^a-zA-Z0-9\.\/\\$]/g, "")\<close> keeps.\<close>

definition keptChar :: "char \<Rightarrow> bool" where
  "keptChar ch =
     (ch \<in> set ''abcdefghijklmnopqrstuvwxyzABCDEFGHIJKLMNOPQRSTUVWXYZ0123456789./$''
      \<or> ch = CHR 0x5C)"

definition mangleGlobalName ::
  "PathModule \<Rightarrow> Compiler \<Rightarrow> string \<Rightarrow> SourceFileId \<Rightarrow> error + string" where
  "mangleGlobalName P c name sourceFile =
     (if Some sourceFile \<noteq> entryFile c \<and> Some sourceFile \<noteq> libraryFile c then
        (case entryFile c of
           None \<Rightarrow> Inl TypeError
         | Some entry \<Rightarrow>
             Inr (filter keptChar
                    (relative P (dirname P (normalize P (fileName entry)))
                       (normalize P (fileName sourceFile)))
                  @ [sep P] @ name))
      else Inr name)"

section \<open>Expressions\<close>

text \<open>
  \<^verbatim>\<open>compileIdentifier\<close> (expressions/identifier.ts). \<^verbatim>\<open>currentLocals\<close> is read as the map
  of the entries that were stored in it.
\<close>

definition compileIdentifier :: "Compiler \<Rightarrow> nat \<Rightarrow> string \<Rightarrow> Type \<Rightarrow> Expr \<times> Compiler" where
  "compileIdentifier c node text contextualType =
     (case map_of (currentLocals c) text of
        Some referencedLocal \<Rightarrow>
          (GetLocal (varIndex referencedLocal) (TypeOf (varType referencedLocal) (uintptrSize c)),
           setReflectedType c node (Some (varType referencedLocal)))
      | None \<Rightarrow>
          (Unreachable,
           setReflectedType (error c node ''Undefined local variable'' (TextArg text))
             node (Some contextualType)))"

definition operatorName :: "PrefixOperator \<Rightarrow> string" where
  "operatorName oper =
     (case oper of
        ExclamationToken \<Rightarrow> ''ExclamationToken'' | PlusToken \<Rightarrow> ''PlusToken''
      | MinusToken \<Rightarrow> ''MinusToken'' | TildeToken \<Rightarrow> ''TildeToken''
      | PlusPlusToken \<Rightarrow> ''PlusPlusToken'' | MinusMinusToken \<Rightarrow> ''MinusMinusToken''
      | OtherOperator k \<Rightarrow> k)"

definition unsupportedPrefix :: "Compiler \<Rightarrow> nat \<Rightarrow> PrefixOperator \<Rightarrow> error + Expr \<times> Compiler" where
  "unsupportedPrefix c node oper =
     Inr (Unreachable,
          error c node ''Unsupported unary prefix operator'' (TextArg (operatorName oper)))"

text \<open>
  The body of \<^verbatim>\<open>compilePrefixUnary\<close> after its operand has been lowered. A member read on
  an undefined reflected type (\<^verbatim>\<open>operandType.isLong\<close>) throws a TypeError.
\<close>

definition prefixUnaryOf ::
  "Compiler \<Rightarrow> nat \<Rightarrow> PrefixOperator \<Rightarrow> Expression \<Rightarrow> Type \<Rightarrow> Expr \<Rightarrow> error + Expr \<times> Compiler" where
  "prefixUnaryOf c node oper operandNode contextualType operand =
     (let operandType = getReflectedType c (exprId operandNode) in
      case oper of
        ExclamationToken \<Rightarrow>
          (let c1 = setReflectedType c node (Some boolType) in
           if operandType = Some floatType then Inr (Binary F32Eq operand (F32Const 0), c1)
           else if operandType = Some doubleType then Inr (Binary F64Eq operand (F64Const 0), c1)
           else (case operandType of
                   None \<Rightarrow> Inl TypeError
                 | Some t \<Rightarrow>
                     if isLong t then Inr (Unary I64Eqz operand, c1)
                     else Inr (Unary I32Eqz operand, c1)))
      | PlusToken \<Rightarrow> Inr (operand, setReflectedType c node operandType)
      | MinusToken \<Rightarrow>
          (let c1 = setReflectedType c node operandType in
           if operandType = Some floatType then
             Inr (Unary F32Neg (HostObject (exprId operandNode)), c1)
           else if operandType = Some doubleType then
             Inr (Unary F64Neg (HostObject (exprId operandNode)), c1)
           else (case operandType of
                   None \<Rightarrow> Inl TypeError
                 | Some t \<Rightarrow>
                     if isLong t then Inr (Binary I64Sub (I64Const 0 0) operand, c1)
                     else Inr (maybeConvertValue c1 node
                                 (Binary I32Sub (I32Const 0) operand) intType t True)))
      | TildeToken \<Rightarrow>
          (case operandType of
             None \<Rightarrow> Inl TypeError
           | Some t \<Rightarrow>
               if isLong t then
                 Inr (Binary I64Xor operand (I64Const (- 1) (- 1)),
                      setReflectedType c node (Some t))
               else if isInt t then
                 Inr (Binary I32Xor operand (I32Const (- 1)), setReflectedType c node (Some t))
               else if isLong contextualType then
                 (let c1 = setReflectedType c node (Some contextualType);
                      (e, c2) = maybeConvertValue c1 (exprId operandNode) operand t
                                  contextualType True
                  in Inr (Binary I64Xor e (I64Const (- 1) (- 1)), c2))
               else
                 (let c1 = setReflectedType c node (Some intType);
                      (e, c2) = maybeConvertValue c1 (exprId operandNode) operand t intType True
                  in Inr (Binary I32Xor e (I32Const (- 1)), c2)))
      | OtherOperator k \<Rightarrow> unsupportedPrefix c node oper
      | _ \<Rightarrow>
          (case operandNode of
             Identifier _ text \<Rightarrow>
               (case map_of (currentLocals c) text of
                  Some local \<Rightarrow>
                    (let calculate =
                       Binary (if oper = PlusPlusToken
                               then CategoryAdd (varType local) (uintptrSize c)
                               else CategorySub (varType local) (uintptrSize c))
                         (GetLocal (varIndex local) (TypeOf (uintptrType c) (uintptrSize c)))
                         (ValueOf (varType local) 1)
                     in
                     if contextualType = voidType then
                       Inr (SetLocal (varIndex local) calculate,
                            setReflectedType c node (Some voidType))
                     else
                       Inr (maybeConvertValue
                              (setReflectedType c node (Some (varType local))) node
                              (TeeLocal (varIndex local) calculate) intType (varType local) True))
                | None \<Rightarrow> unsupportedPrefix c node oper)
           | _ \<Rightarrow> unsupportedPrefix c node oper))"

text \<open>
  \<^verbatim>\<open>Compiler.compileExpression\<close> and \<^verbatim>\<open>compilePrefixUnary\<close>, which lowers its operand
  through \<^verbatim>\<open>compileExpression\<close> first.
\<close>

fun compileExpression ::
  "Lowerers \<Rightarrow> Compiler \<Rightarrow> Expression \<Rightarrow> Type \<Rightarrow> error + Expr \<times> Compiler"
and compilePrefixUnary ::
  "Lowerers \<Rightarrow> Compiler \<Rightarrow> nat \<Rightarrow> PrefixOperator \<Rightarrow> Expression \<Rightarrow> Type \<Rightarrow> error + Expr \<times> Compiler"
where
  "compileExpression X c (PrefixUnaryExpression node oper operandNode) contextualType =
     compilePrefixUnary X c node oper operandNode contextualType"
| "compileExpression X c (Identifier node text) contextualType =
     Inr (compileIdentifier c node text contextualType)"
| "compileExpression X c (TrueKeyword node) contextualType =
     Inr (ValueOf boolType 1, setReflectedType c node (Some boolType))"
| "compileExpression X c (FalseKeyword node) contextualType =
     Inr (ValueOf boolType 0, setReflectedType c node (Some boolType))"
| "compileExpression X c (NullKeyword node) contextualType =
     Inr (ValueOf (uintptrType c) 0, setReflectedType c node (Some (uintptrType c)))"
| "compileExpression X c (OtherExpression node k) contextualType =
     Inr (Unreachable,
          setReflectedType (error c node ''Unsupported expression node'' (TextArg k))
            node (Some contextualType))"
| "compileExpression X c node contextualType = lowerExpression X c node contextualType"
| "compilePrefixUnary X c node oper operandNode contextualType =
     (case compileExpression X c operandNode contextualType of
        Inl e \<Rightarrow> Inl e
      | Inr (operand, c1) \<Rightarrow> prefixUnaryOf c1 node oper operandNode contextualType operand)"

section \<open>Statements\<close>



section \<open>Types and references\<close>

definition builtinTypeNames :: "string list" where
  "builtinTypeNames =
     [''byte'', ''sbyte'', ''short'', ''ushort'', ''int'', ''uint'', ''long'', ''ulong'',
      ''bool'', ''float'', ''double'', ''uintptr'']"

fun maybeResolveAlias :: "Symbol \<Rightarrow> Symbol"
and firstAlias :: "Declaration list \<Rightarrow> Symbol option"
where
  "maybeResolveAlias (Symbol name decls) =
     (if name \<in> set builtinTypeNames then Symbol name decls
      else (case firstAlias decls of
              Some s \<Rightarrow> s
            | None \<Rightarrow> Symbol name decls))"
| "firstAlias [] = None"
| "firstAlias (Declaration own file (Some (Some target)) # ds) = Some (maybeResolveAlias target)"
| "firstAlias (d # ds) = firstAlias ds"

datatype Reference = VariableRef Variable | EnumRef string | ClassRef Type

text \<open>
  The loop of \<^verbatim>\<open>resolveReference\<close> over the declarations of the symbol: the first
  declaration whose mangled name is a global, an enum or a class decides.
\<close>

fun referenceOfDeclarations ::
  "PathModule \<Rightarrow> Compiler \<Rightarrow> Declaration list \<Rightarrow> error + Reference option" where
  "referenceOfDeclarations P c [] = Inr None"
| "referenceOfDeclarations P c (Declaration None file alias # ds) =
     referenceOfDeclarations P c ds"
| "referenceOfDeclarations P c (Declaration (Some name) file alias # ds) =
     (case mangleGlobalName P c name file of
        Inl e \<Rightarrow> Inl e
      | Inr mangled \<Rightarrow>
          (case map_of (globals c) mangled of
             Some v \<Rightarrow> Inr (Some (VariableRef v))
           | None \<Rightarrow>
               if mangled \<in> set (enums c) then Inr (Some (EnumRef mangled))
               else (case map_of (classes c) mangled of
                       Some t \<Rightarrow> Inr (Some (ClassRef t))
                     | None \<Rightarrow> referenceOfDeclarations P c ds)))"

definition resolveReference ::
  "PathModule \<Rightarrow> Compiler \<Rightarrow> string \<Rightarrow> Symbol option \<Rightarrow> error + Reference option" where
  "resolveReference P c localName symbol =
     (case map_of (currentLocals c) localName of
        Some v \<Rightarrow> Inr (Some (VariableRef v))
      | None \<Rightarrow>
          (case symbol of
             None \<Rightarrow> Inr None
           | Some (Symbol name decls) \<Rightarrow> referenceOfDeclarations P c decls))"

definition typeOfName :: "Compiler \<Rightarrow> string \<Rightarrow> Type option" where
  "typeOfName c name =
     (if name = ''byte'' then Some byteType
      else if name = ''sbyte'' then Some sbyteType
      else if name = ''short'' then Some shortType
      else if name = ''ushort'' then Some ushortType
      else if name = ''int'' then Some intType
      else if name = ''uint'' then Some uintType
      else if name = ''long'' then Some longType
      else if name = ''ulong'' then Some ulongType
      else if name = ''bool'' then Some boolType
      else if name = ''float'' then Some floatType
      else if name = ''double'' then Some doubleType
      else if name = ''uintptr'' then Some (uintptrType c)
      else None)"

definition unsupportedType :: "Compiler \<Rightarrow> nat \<Rightarrow> string \<Rightarrow> error + Type \<times> Compiler" where
  "unsupportedType c node text = Inr (voidType, error c node ''Unsupported type'' (TextArg text))"

fun resolveType ::
  "PathModule \<Rightarrow> Compiler \<Rightarrow> TypeNode \<Rightarrow> bool \<Rightarrow> error + Type \<times> Compiler" where
  "resolveType P c (VoidKeyword n) acceptVoid =
     Inr (voidType, if \<not> acceptVoid then error c n ''Illegal type'' (TextArg ''void'') else c)"
| "resolveType P c (TypeReference n text None) acceptVoid = unsupportedType c n text"
| "resolveType P c (TypeReference n text (Some symbolAtLocation)) acceptVoid =
     (case maybeResolveAlias symbolAtLocation of
        Symbol name decls \<Rightarrow>
          (case typeOfName c name of
             Some t \<Rightarrow> Inr (t, c)
           | None \<Rightarrow>
               (case resolveReference P c text (Some symbolAtLocation) of
                  Inl e \<Rightarrow> Inl e
                | Inr (Some (ClassRef t)) \<Rightarrow> Inr (t, c)
                | Inr _ \<Rightarrow> unsupportedType c n text)))"
| "resolveType P c (OtherTypeNode n text) acceptVoid = unsupportedType c n text"

section \<open>Initialization\<close>

definition addGlobal :: "Module \<Rightarrow> string \<Rightarrow> BinaryenType \<Rightarrow> bool \<Rightarrow> Expr \<Rightarrow> Module" where
  "addGlobal m name t mutable init =
     m\<lparr>modGlobals := modGlobals m @
        [\<lparr>globalName = name, globalType = t, globalMutable = mutable, globalInit = init\<rparr>]\<rparr>"

definition removeExport :: "Module \<Rightarrow> string \<Rightarrow> Module" where
  "removeExport m name = m\<lparr>modExports := filter (\<lambda>e. fst e \<noteq> name) (modExports m)\<rparr>"

definition addExport :: "Module \<Rightarrow> string \<Rightarrow> string \<Rightarrow> Module" where
  "addExport m internal external = m\<lparr>modExports := modExports m @ [(external, internal)]\<rparr>"

definition setMemory :: "Module \<Rightarrow> nat \<Rightarrow> nat \<Rightarrow> string \<Rightarrow> Module" where
  "setMemory m initial maximum exportName = m\<lparr>modMemory := Some (initial, maximum, exportName)\<rparr>"

definition createGlobal ::
  "Lowerers \<Rightarrow> Compiler \<Rightarrow> string \<Rightarrow> Type \<Rightarrow> bool \<Rightarrow> Expression option \<Rightarrow> error + Compiler" where
  "createGlobal X c name type mutable initializerNode =
     (let c0 = c\<lparr>globals := AList.update name
                  \<lparr>varName = name, varType = type, varGlobal = True,
                   varConstant = (\<not> mutable), varIndex = 0\<rparr> (globals c)\<rparr>
      in
      case initializerNode of
        None \<Rightarrow>
          Inr (c0\<lparr>module := addGlobal (module c0) name (TypeOf type (uintptrSize c0)) mutable
                              (ValueOf type 0)\<rparr>)
      | Some (NumericLiteral n) \<Rightarrow>
          (case lowerExpression X c0 (NumericLiteral n) type of
             Inl e \<Rightarrow> Inl e
           | Inr (init, c1) \<Rightarrow>
               Inr (c1\<lparr>module := addGlobal (module c1) name (TypeOf type (uintptrSize c0))
                                   mutable init\<rparr>))
      | Some node \<Rightarrow>
          if mutable then
            (let c1 = c0\<lparr>module := addGlobal (module c0) name (TypeOf type (uintptrSize c0))
                                      mutable (ValueOf type 0)\<rparr>
             in
             case compileExpression X c1 node type of
               Inl e \<Rightarrow> Inl e
             | Inr (value, c2) \<Rightarrow>
                 (case getReflectedType c2 (exprId node) of
                    None \<Rightarrow> Inl TypeError
                  | Some fromType \<Rightarrow>
                      let (converted, c3) =
                            maybeConvertValue c2 (exprId node) value fromType type False
                      in Inr (c3\<lparr>globalInitializers :=
                                    globalInitializers c3 @ [SetGlobal name converted]\<rparr>)))
          else Inr (error c0 (exprId node) ''Unsupported global constant initializer'' NoArg))"

text \<open>
  \<^verbatim>\<open>initializeGlobal\<close>: the loop over the declarations of a variable statement;
  \<open>isConst\<close> is \<^verbatim>\<open>typescript.isConst(node.declarationList)\<close>.
\<close>

fun initializeGlobal ::
  "PathModule \<Rightarrow> Lowerers \<Rightarrow> Compiler \<Rightarrow> SourceFileId \<Rightarrow> bool \<Rightarrow> VariableDeclaration list
     \<Rightarrow> error + Compiler" where
  "initializeGlobal P X c file isConst [] = Inr c"
| "initializeGlobal P X c file isConst (declaration # rest) =
     (case (case (declType declaration, declSymbol declaration) of
              (Some typeNode, Some symbolName) \<Rightarrow>
                (case mangleGlobalName P c symbolName file of
                   Inl e \<Rightarrow> Inl e
                 | Inr name \<Rightarrow>
                     (case resolveType P c typeNode False of
                        Inl e \<Rightarrow> Inl e
                      | Inr (type, c1) \<Rightarrow>
                          createGlobal X c1 name type (\<not> isConst) (declInitializer declaration)))
            | _ \<Rightarrow> Inr (error c (declNameNode declaration) ''Type expected'' NoArg)) of
        Inl e \<Rightarrow> Inl e
      | Inr c2 \<Rightarrow> initializeGlobal P X c2 file isConst rest)"

definition initializeLibrary :: "Compiler \<Rightarrow> Compiler" where
  "initializeLibrary c =
     (let binaryenPtrType = TypeOf (uintptrType c) (uintptrSize c);
          m1 = addGlobal (module c) ''.msp'' binaryenPtrType True (ValueOf (uintptrType c) 0);
          c1 = c\<lparr>module := m1,
                 globalInitializers := globalInitializers c @
                   [SetGlobal ''.msp''
                      (Call ''mspace_init'' [ValueOf (uintptrType c) (uintptrSize c * 2)]
                         binaryenPtrType)]\<rparr>;
          m2 = removeExport (removeExport (removeExport (module c1) ''mspace_init'')
                 ''mspace_malloc'') ''mspace_free'';
          c2 = c1\<lparr>module := m2\<rparr>;
          (mallocSignature, c3) =
             obtainSignature c2 (if uintptrSize c2 = 4 then ''ii'' else ''II'')
               binaryenPtrType [binaryenPtrType];
          (mallocHandle, m3) =
             addFunction (module c3) ''malloc'' mallocSignature []
               (Block [] [Return (Call ''mspace_malloc''
                  [GetGlobal ''.msp'' binaryenPtrType, GetLocal 0 binaryenPtrType]
                  binaryenPtrType)]);
          c4 = c3\<lparr>module := m3\<rparr>;
          (freeSignature, c5) =
             obtainSignature c4 (if uintptrSize c4 = 4 then ''iv'' else ''Iv'')
               none [binaryenPtrType];
          (freeHandle, m5) =
             addFunction (module c5) ''free'' freeSignature []
               (Block [] [Call ''mspace_free''
                  [GetGlobal ''.msp'' binaryenPtrType, GetLocal 0 binaryenPtrType] none])
      in c5\<lparr>module := addExport (addExport m5 ''malloc'' ''malloc'') ''free'' ''free''\<rparr>)"

text \<open>The body of the \<^verbatim>\<open>switch\<close> of \<^verbatim>\<open>initialize\<close> for one top-level statement.\<close>

fun initializeStatement ::
  "PathModule \<Rightarrow> Lowerers \<Rightarrow> Compiler \<Rightarrow> SourceFileId \<Rightarrow> Statement \<Rightarrow> error + Compiler" where
  "initializeStatement P X c file (EndOfFileToken n) = Inr c"
| "initializeStatement P X c file (InterfaceDeclaration n) = Inr c"
| "initializeStatement P X c file (TypeAliasDeclaration n) = Inr c"
| "initializeStatement P X c file (ImportDeclaration n) = Inr c"
| "initializeStatement P X c file (VariableStatement n isConst ds) =
     initializeGlobal P X c file isConst ds"
| "initializeStatement P X c file (FunctionDeclaration n) =
     initializeDeclaration X c file (FunctionDeclaration n)"
| "initializeStatement P X c file (ClassDeclaration n) =
     initializeDeclaration X c file (ClassDeclaration n)"
| "initializeStatement P X c file (EnumDeclaration n) =
     initializeDeclaration X c file (EnumDeclaration n)"
| "initializeStatement P X c file node =
     Inr (error c (stmtId node) ''Unsupported top-level statement'' (TextArg (stmtKindName node)))"

fun initializeStatements ::
  "PathModule \<Rightarrow> Lowerers \<Rightarrow> Compiler \<Rightarrow> SourceFileId \<Rightarrow> Statement list \<Rightarrow> error + Compiler" where
  "initializeStatements P X c file [] = Inr c"
| "initializeStatements P X c file (statement # rest) =
     (case initializeStatement P X c file statement of
        Inl e \<Rightarrow> Inl e
      | Inr c1 \<Rightarrow> initializeStatements P X c1 file rest)"

fun initializeFiles ::
  "PathModule \<Rightarrow> Lowerers \<Rightarrow> Compiler \<Rightarrow> SourceFile list \<Rightarrow> error + Compiler" where
  "initializeFiles P X c [] = Inr c"
| "initializeFiles P X c (file # rest) =
     (case initializeStatements P X c (fileId file) (statements file) of
        Inl e \<Rightarrow> Inl e
      | Inr c1 \<Rightarrow> initializeFiles P X c1 rest)"

text \<open>\<^verbatim>\<open>Compiler.initialize\<close>; \<open>sourceFiles\<close> is \<^verbatim>\<open>this.program.getSourceFiles()\<close>.\<close>

definition initialize ::
  "PathModule \<Rightarrow> Lowerers \<Rightarrow> Compiler \<Rightarrow> SourceFile list \<Rightarrow> error + Compiler" where
  "initialize P X c sourceFiles =
     (case initializeFiles P X c sourceFiles of
        Inl e \<Rightarrow> Inl e
      | Inr c1 \<Rightarrow>
          if opt_noLib (options c1) = Some True then
            Inr (c1\<lparr>module := setMemory (module c1) 1 0xffff ''memory''\<rparr>)
          else Inr (initializeLibrary c1))"

section \<open>Concrete inputs\<close>

text \<open>
  The state right after construction with no options, and states and programs derived
  from it, on which the properties below are evaluated.
\<close>

definition stateAfterConstruction :: Compiler where
  "stateAfterConstruction = fieldInitializers noOptions emptyModule uintptrType32"

definition sizeOptions :: "JsNumber \<Rightarrow> CompilerOptions" where
  "sizeOptions x = \<lparr>opt_uintptrSize = Some x, opt_noLib = None, opt_silent = None\<rparr>"

definition requestedSize :: "CompilerOptions option \<Rightarrow> JsNumber option" where
  "requestedSize given = (case given of None \<Rightarrow> None | Some x \<Rightarrow> opt_uintptrSize x)"

text \<open>What a lowerer emitted, if it returned.\<close>

definition emitted :: "error + Expr \<times> Compiler \<Rightarrow> Expr option" where
  "emitted r = (case r of Inl e \<Rightarrow> None | Inr (ir, c) \<Rightarrow> Some ir)"


text \<open>The body of the synthesized start function for a state.\<close>

definition startFunctionBody :: "Compiler \<Rightarrow> Expr" where
  "startFunctionBody c =
     Block [] (globalInitializers c @
               (case userStartFunction c of None \<Rightarrow> [] | Some f \<Rightarrow> [Call ''start'' [] none]))"

text \<open>A function in which the local \<open>x\<close> is declared (slot 0), of type int and of type float.\<close>

definition localX :: Variable where
  "localX = \<lparr>varName = ''x'', varType = intType, varGlobal = False, varConstant = False,
     varIndex = 0\<rparr>"

definition stateWithLocalX :: Compiler where
  "stateWithLocalX = stateAfterConstruction\<lparr>currentLocals := [(''x'', localX)], localIndex := 1\<rparr>"

definition localF :: Variable where
  "localF = \<lparr>varName = ''x'', varType = floatType, varGlobal = False, varConstant = False,
     varIndex = 0\<rparr>"

definition stateWithFloatLocal :: Compiler where
  "stateWithFloatLocal =
     stateAfterConstruction\<lparr>currentLocals := [(''x'', localF)], localIndex := 1\<rparr>"

text \<open>
  The \<^verbatim>\<open>path\<close> functions on file names without a directory part, all in the working
  directory; the program of \<^verbatim>\<open>compileString\<close> with its two files, and two further files.
\<close>

definition flatPaths :: PathModule where
  "flatPaths = \<lparr>relative = (\<lambda>from to. to), dirname = (\<lambda>p. ''.''), normalize = (\<lambda>p. p),
     sep = CHR ''/''\<rparr>"

definition moduleFile :: SourceFileId where
  "moduleFile = \<lparr>fileName = ''module.ts'', isDeclarationFile = False\<rparr>"

definition assemblyFile :: SourceFileId where
  "assemblyFile = \<lparr>fileName = ''assembly.d.ts'', isDeclarationFile = True\<rparr>"

definition stateOfProgram :: Compiler where
  "stateOfProgram = assignFiles (rev [assemblyFile, moduleFile]) stateAfterConstruction"

definition fileA :: SourceFileId where
  "fileA = \<lparr>fileName = ''a.ts'', isDeclarationFile = False\<rparr>"

definition fileB :: SourceFileId where
  "fileB = \<lparr>fileName = ''b.ts'', isDeclarationFile = False\<rparr>"

text \<open>
  The part of a mangled name in front of the identifier: nothing for the entry and the
  library file, the cleaned relative path for any other file.
\<close>

definition importPrefix :: "PathModule \<Rightarrow> Compiler \<Rightarrow> SourceFileId \<Rightarrow> string option" where
  "importPrefix P c sourceFile =
     (if Some sourceFile \<noteq> entryFile c \<and> Some sourceFile \<noteq> libraryFile c then
        (case entryFile c of
           None \<Rightarrow> None
         | Some entry \<Rightarrow>
             Some (filter keptChar
                    (relative P (dirname P (normalize P (fileName entry)))
                       (normalize P (fileName sourceFile)))))
      else None)"

text \<open>The program \<^verbatim>\<open>let g: bool = true;\<close>.\<close>

definition globalDeclaration :: VariableDeclaration where
  "globalDeclaration =
     \<lparr>declNameNode = 2, declSymbol = Some ''g'',
      declType = Some (TypeReference 3 ''bool'' (Some (Symbol ''bool'' []))),
      declInitializer = Some (TrueKeyword 4)\<rparr>"

definition programWithGlobal :: "SourceFile list" where
  "programWithGlobal =
     [\<lparr>fileId = assemblyFile, statements = []\<rparr>,
      \<lparr>fileId = moduleFile, statements = [VariableStatement 1 False [globalDeclaration]]\<rparr>]"

section \<open>Auxiliary facts\<close>

lemma noOptions_fields:
  "opt_uintptrSize noOptions = None" "opt_noLib noOptions = None"
  by (simp_all add: noOptions_def)

lemma assignFiles_keeps:
  "options (assignFiles fs c) = options c \<and> uintptrType (assignFiles fs c) = uintptrType c"
  by (induction fs arbitrary: c) auto

lemma uintptrSize_assignFiles: "uintptrSize (assignFiles fs c) = uintptrSize c"
  by (simp add: uintptrSize_def assignFiles_keeps)

lemma stateOfProgram_files:
  "entryFile stateOfProgram = Some moduleFile" "libraryFile stateOfProgram = Some assemblyFile"
  by (simp_all add: stateOfProgram_def stateAfterConstruction_def fieldInitializers_def
      moduleFile_def assemblyFile_def)

lemma newCompiler_program:
  "newCompiler emptyModule [assemblyFile, moduleFile] None = Inr stateOfProgram"
proof -
  have size: "uintptrSize (fieldInitializers noOptions emptyModule voidType) = 4"
    by (simp add: uintptrSize_def fieldInitializers_def noOptions_def)
  have "(fieldInitializers noOptions emptyModule voidType)\<lparr>uintptrType := uintptrType32\<rparr>
      = stateAfterConstruction"
    by (simp add: stateAfterConstruction_def fieldInitializers_def)
  then show ?thesis
    unfolding newCompiler_def Let_def stateOfProgram_def
    by (simp add: size) (simp add: noOptions_def)
qed

lemma maybeConvertValue_same_kind:
  "kind fromType = kind toType \<Longrightarrow>
     maybeConvertValue c node expr fromType toType explicit = (expr, c)"
  by (subst maybeConvertValue.simps) simp

lemma fst_intToOtherInt:
  "fst (intToOtherInt c node expr f t ex) =
     (if sizeT f < sizeT t \<or> isInt t then expr
      else if isSigned t then
        Binary I32Shl (Binary I32ShrS expr (I32Const (shift32 t))) (I32Const (shift32 t))
      else Binary I32And expr (I32Const (mask32 t)))"
  by (simp add: intToOtherInt_def split: prod.splits)

lemma maybeConvertValue_int_tail:
  assumes "kind f \<noteq> kind t" "kind f \<noteq> floatKind" "kind f \<noteq> doubleKind"
    "kind t \<noteq> floatKind" "kind t \<noteq> doubleKind" "\<not> isLong t" "\<not> isLong f"
  shows "\<exists>c'. fst (maybeConvertValue c node expr f t ex) = fst (intToOtherInt c' node expr f t ex)"
proof -
  have ne: "f \<noteq> floatType" "f \<noteq> doubleType" "t \<noteq> floatType" "t \<noteq> doubleType"
    using assms by (auto simp: type_defs)
  show ?thesis
    using assms ne
    by (subst maybeConvertValue.simps) (auto simp: Let_def)
qed

lemma widen_sbyte: "maybeConvertValue c n e sbyteType intType ex = (e, setReflectedType c n (Some intType))"
  by (subst maybeConvertValue.simps)
     (simp add: type_defs intToOtherInt_def isInt_def isLong_def Let_def)

lemma narrow_sbyte: "fst (maybeConvertValue c n e intType sbyteType ex) = Binary I32Shl (Binary I32ShrS e (I32Const 24)) (I32Const 24)"
  by (subst maybeConvertValue.simps)
   (simp add: type_defs intToOtherInt_def isInt_def isLong_def isSigned_def Let_def unlessExplicit_def illegalImplicitConversion_def shift32_def bitwidth_def split: prod.splits)

lemma numberToString_1: "numberToString 1 = ''1''"
  by (subst numberToString.simps) (simp add: digitChar_def)

lemma numberToString_Suc_0: "numberToString (Suc 0) = ''1''"
  using numberToString_1 by simp


lemma obtainSignature_void:
  assumes "\<forall>sig. map_of (signatures c) ''v'' = Some sig \<longrightarrow> ftResult sig = none \<and> ftParams sig = []"
    and "obtainSignature c ''v'' none [] = (sig, c1)"
  shows "ftResult sig = none \<and> ftParams sig = [] \<and> modFunctions (module c1) = modFunctions (module c)"
  using assms
  by (auto simp: obtainSignature_def getFunctionType_def addFunctionType_def Let_def
      split: option.splits dest: find_Some_iff [THEN iffD1])

lemma obtainSignature_globalInitializers:
  "globalInitializers (snd (obtainSignature c ident r ps)) = globalInitializers c"
  by (simp add: obtainSignature_def addFunctionType_def split_beta split: option.splits)

lemma initializeLibrary_appends:
  "globalInitializers (initializeLibrary c) =
     globalInitializers c @
       [SetGlobal ''.msp''
          (Call ''mspace_init'' [ValueOf (uintptrType c) (uintptrSize c * 2)]
             (TypeOf (uintptrType c) (uintptrSize c)))]"
  by (simp add: initializeLibrary_def Let_def split_beta obtainSignature_globalInitializers)

lemma createGlobal_true:
  "createGlobal X c name boolType True (Some (TrueKeyword n)) =
     Inr ((setReflectedType
            (c\<lparr>globals := AList.update name
                  \<lparr>varName = name, varType = boolType, varGlobal = True,
                   varConstant = False, varIndex = 0\<rparr> (globals c),
               module := addGlobal (module c) name (TypeOf boolType (uintptrSize c)) True
                           (ValueOf boolType 0)\<rparr>) n (Some boolType))
          \<lparr>globalInitializers := globalInitializers c @ [SetGlobal name (ValueOf boolType 1)]\<rparr>)"
proof -
  have size: "uintptrSize (c\<lparr>globals := g\<rparr>) = uintptrSize c" for g
    by (simp add: uintptrSize_def)
  show ?thesis
    unfolding createGlobal_def Let_def
    by (simp add: size getReflectedType_def setReflectedType_def maybeConvertValue_same_kind)
qed

lemma uniqueName_result:
  "(map_of locals name = None \<and> uniqueName locals originalName name a = name) \<or>
   (map_of locals name \<noteq> None \<and>
    (\<exists>k\<ge>a. uniqueName locals originalName name a = originalName @ ''.'' @ numberToString k \<and>
       map_of locals (originalName @ ''.'' @ numberToString k) = None \<and>
       (\<forall>j. a \<le> j \<and> j < k \<longrightarrow>
          map_of locals (originalName @ ''.'' @ numberToString j) \<noteq> None)))"
proof (induction locals originalName name a rule: uniqueName.induct)
  case (1 locals originalName name a)
  show ?case
  proof (cases "map_of locals name = None")
    case True
    then have "uniqueName locals originalName name a = name"
      by (subst uniqueName.simps) simp
    with True show ?thesis by simp
  next
    case False
    define nxt where "nxt = originalName @ ''.'' @ numberToString a"
    define r where "r = uniqueName locals originalName name a"
    have unfold: "r = uniqueName locals originalName nxt (a + 1)"
      unfolding r_def nxt_def using False by (subst uniqueName.simps) simp
    have IH: "(map_of locals nxt = None \<and> r = nxt) \<or>
       (map_of locals nxt \<noteq> None \<and>
        (\<exists>k\<ge>a + 1. r = originalName @ ''.'' @ numberToString k \<and>
           map_of locals (originalName @ ''.'' @ numberToString k) = None \<and>
           (\<forall>j. a + 1 \<le> j \<and> j < k \<longrightarrow>
              map_of locals (originalName @ ''.'' @ numberToString j) \<noteq> None)))"
      using "1" [OF False] unfolding unfold nxt_def .
    have goal: "\<exists>k\<ge>a. r = originalName @ ''.'' @ numberToString k \<and>
       map_of locals (originalName @ ''.'' @ numberToString k) = None \<and>
       (\<forall>j. a \<le> j \<and> j < k \<longrightarrow>
          map_of locals (originalName @ ''.'' @ numberToString j) \<noteq> None)"
    proof (cases "map_of locals nxt = None")
      case True
      with IH have "r = nxt" by simp
      with True show ?thesis
        unfolding nxt_def by (intro exI [of _ a] conjI allI impI) (simp_all, linarith)
    next
      case taken: False
      with IH obtain k where k: "a + 1 \<le> k"
        "r = originalName @ ''.'' @ numberToString k"
        "map_of locals (originalName @ ''.'' @ numberToString k) = None"
        "\<forall>j. a + 1 \<le> j \<and> j < k \<longrightarrow>
              map_of locals (originalName @ ''.'' @ numberToString j) \<noteq> None"
        by blast
      have "map_of locals (originalName @ ''.'' @ numberToString j) \<noteq> None"
        if "a \<le> j \<and> j < k" for j
      proof (cases "j = a")
        case True
        with taken show ?thesis by (simp add: nxt_def)
      next
        case False
        with that have "a + 1 \<le> j \<and> j < k" by simp
        with k(4) show ?thesis by blast
      qed
      with k(1,2,3) show ?thesis
        by (intro exI [of _ k]) simp
    qed
    show ?thesis
      using False goal unfolding r_def by blast
  qed
qed

lemma uniqueName_x: "uniqueName [(''x'', localX)] ''x'' ''x'' 1 = ''x.1''"
proof -
  have "uniqueName [(''x'', localX)] ''x'' ''x'' 1
      = uniqueName [(''x'', localX)] ''x'' (''x'' @ ''.'' @ numberToString 1) (1 + 1)"
    by (subst uniqueName.simps) simp
  also have "\<dots> = ''x.1''"
    by (subst uniqueName.simps) (simp add: numberToString_Suc_0)
  finally show ?thesis .
qed

lemma first_separator:
  "s \<notin> set a \<Longrightarrow> s \<notin> set b \<Longrightarrow> a @ s # u = b @ s # v \<Longrightarrow> a = b \<and> u = v"
proof (induction a arbitrary: b)
  case Nil
  then show ?case by (cases b) auto
next
  case (Cons x a)
  then show ?case by (cases b) auto
qed

lemma split_at_separator:
  assumes "s \<notin> set n1" and "s \<notin> set n2"
  shows "(p1 @ [s] @ n1 = p2 @ [s] @ n2) = (p1 = p2 \<and> n1 = n2)"
proof
  assume eq: "p1 @ [s] @ n1 = p2 @ [s] @ n2"
  then have "rev (p1 @ [s] @ n1) = rev (p2 @ [s] @ n2)" by simp
  then have e: "rev n1 @ s # rev p1 = rev n2 @ s # rev p2" by simp
  have h1: "s \<notin> set (rev n1)" and h2: "s \<notin> set (rev n2)"
    using assms by simp_all
  have "rev n1 = rev n2 \<and> rev p1 = rev p2"
    using first_separator [OF h1 h2 e] .
  then show "p1 = p2 \<and> n1 = n2" by simp
next
  assume "p1 = p2 \<and> n1 = n2"
  then show "p1 @ [s] @ n1 = p2 @ [s] @ n2" by simp
qed

lemma uintptrSize_stateWithFloatLocal: "uintptrSize stateWithFloatLocal = 4"
  by (simp add: uintptrSize_def stateWithFloatLocal_def stateAfterConstruction_def
      fieldInitializers_def noOptions_def)

text \<open>
  Prefix minus on an operand whose reflected type is float: whatever the operand lowers
  to, the negation is built over the operand's syntax node.
\<close>

lemma negation_of_float_operand:
  assumes "compileExpression X c operandNode contextualType = Inr (operand, c1)"
    and "getReflectedType c1 (exprId operandNode) = Some floatType"
  shows "compilePrefixUnary X c node MinusToken operandNode contextualType =
     Inr (Unary F32Neg (HostObject (exprId operandNode)),
          setReflectedType c1 node (Some floatType))"
  using assms by (simp add: prefixUnaryOf_def Let_def)

section \<open>Properties of the allocator initializer (C1)\<close>

text \<open>
  C1 asks that in a compilation with the library the statement that stores the result of
  \<^verbatim>\<open>mspace_init\<close> into \<^verbatim>\<open>.msp\<close> comes before every initializer of a user global in
  \<^verbatim>\<open>globalInitializers\<close>. \<^verbatim>\<open>initialize\<close> calls \<^verbatim>\<open>initializeLibrary\<close> after its loop over
  the source files, so the statement is appended behind the initializers that the loop
  pushed. For the program \<^verbatim>\<open>let g: bool = true;\<close> compiled with the library, the list is
  the initializer of \<open>g\<close> followed by the initializer of \<^verbatim>\<open>.msp\<close>.
\<close>

theorem msp_initializer_runs_last:
  "(case newCompiler lib [assemblyFile, moduleFile] None of
      Inl e \<Rightarrow> None
    | Inr c \<Rightarrow>
        (case initialize P X c programWithGlobal of
           Inl e \<Rightarrow> None
         | Inr c' \<Rightarrow> Some (globalInitializers c')))
   = Some [SetGlobal ''g'' (ValueOf boolType 1),
           SetGlobal ''.msp''
             (Call ''mspace_init'' [ValueOf uintptrType32 8] (TypeOf uintptrType32 4))]"
proof -
  define c0 where "c0 = (fieldInitializers noOptions lib voidType)\<lparr>uintptrType := uintptrType32\<rparr>"
  define c where "c = c0\<lparr>entryFile := Some moduleFile, libraryFile := Some assemblyFile\<rparr>"
  have size0: "uintptrSize (fieldInitializers noOptions lib voidType) = 4"
    by (simp add: uintptrSize_def fieldInitializers_def noOptions_fields)
  have new: "newCompiler lib [assemblyFile, moduleFile] None = Inr c"
    by (simp add: newCompiler_def Let_def noOptions_def uintptrSize_def c_def c0_def
        fieldInitializers_def moduleFile_def assemblyFile_def)
  have c_fields: "entryFile c = Some moduleFile" "globalInitializers c = []"
    "options c = noOptions" "uintptrType c = uintptrType32"
    by (simp_all add: c_def c0_def fieldInitializers_def)
  have mangle: "mangleGlobalName P c ''g'' moduleFile = Inr ''g''"
    by (simp add: mangleGlobalName_def c_fields)
  define c1 where "c1 =
     (setReflectedType
        (c\<lparr>globals := AList.update ''g''
              \<lparr>varName = ''g'', varType = boolType, varGlobal = True,
               varConstant = False, varIndex = 0\<rparr> (globals c),
           module := addGlobal (module c) ''g'' (TypeOf boolType (uintptrSize c)) True
                       (ValueOf boolType 0)\<rparr>) 4 (Some boolType))
      \<lparr>globalInitializers := globalInitializers c @ [SetGlobal ''g'' (ValueOf boolType 1)]\<rparr>"
  have c1_fields: "globalInitializers c1 = [SetGlobal ''g'' (ValueOf boolType 1)]"
    "options c1 = noOptions" "uintptrType c1 = uintptrType32"
    by (simp_all add: c1_def c_fields setReflectedType_def)
  have stmts: "initializeFiles P X c programWithGlobal = Inr c1"
    by (simp add: programWithGlobal_def globalDeclaration_def mangle typeOfName_def
        builtinTypeNames_def createGlobal_true c1_def)
  have size1: "uintptrSize c1 = 4"
    by (simp add: uintptrSize_def c1_fields noOptions_fields)
  have "initialize P X c programWithGlobal = Inr (initializeLibrary c1)"
    by (simp add: initialize_def stmts c1_fields noOptions_fields)
  then show ?thesis
    by (simp add: new initializeLibrary_appends c1_fields size1)
qed

section \<open>Narrowing conversions (C2)\<close>

text \<open>
  C2: a conversion by \<^verbatim>\<open>maybeConvertValue\<close> between two different types of the 32-bit
  integer family, to a target narrower than 32 bits and no larger than the source, emits
  \<^verbatim>\<open>shl(shr_s(expr, shift32), shift32)\<close> for a signed target and \<^verbatim>\<open>and(expr, mask32)\<close> for
  an unsigned one, whatever the \<^verbatim>\<open>explicit\<close> flag is.
\<close>

theorem narrowing_emits:
  assumes "fromType \<in> int32Family" and "toType \<in> narrowTypes"
    and "fromType \<noteq> toType" and "sizeT toType \<le> sizeT fromType"
  shows "fst (maybeConvertValue c node expr fromType toType explicit) =
     (if isSigned toType then
        Binary I32Shl (Binary I32ShrS expr (I32Const (shift32 toType))) (I32Const (shift32 toType))
      else Binary I32And expr (I32Const (mask32 toType)))"
proof -
  have a: "kind fromType \<noteq> floatKind" "kind fromType \<noteq> doubleKind" "\<not> isLong fromType"
    using assms(1) by (auto simp: int32Family_def type_defs isLong_def)
  have b: "kind toType \<noteq> floatKind" "kind toType \<noteq> doubleKind" "\<not> isLong toType" "\<not> isInt toType"
    using assms(2) by (auto simp: narrowTypes_def type_defs isLong_def isInt_def)
  have k: "kind fromType \<noteq> kind toType"
    using assms(1,2,3) by (auto simp: int32Family_def narrowTypes_def type_defs)
  obtain c' where "fst (maybeConvertValue c node expr fromType toType explicit)
      = fst (intToOtherInt c' node expr fromType toType explicit)"
    using maybeConvertValue_int_tail [OF k a(1,2) b(1,2,3) a(3)] by blast
  then show ?thesis using b(4) assms(4) by (simp add: fst_intToOtherInt)
qed

text \<open>The theorem at int to sbyte and at uint to ushort.\<close>

theorem narrowing_emits_witness:
  "intType \<in> int32Family \<and> sbyteType \<in> narrowTypes \<and> uintType \<in> int32Family \<and> ushortType \<in> narrowTypes \<and>
   intType \<noteq> sbyteType \<and> sizeT sbyteType \<le> sizeT intType \<and>
   uintType \<noteq> ushortType \<and> sizeT ushortType \<le> sizeT uintType \<and>
   fst (maybeConvertValue stateAfterConstruction 1 (GetLocal 0 none) intType sbyteType True) =
     Binary I32Shl (Binary I32ShrS (GetLocal 0 none) (I32Const 24)) (I32Const 24) \<and>
   fst (maybeConvertValue stateAfterConstruction 1 (GetLocal 0 none) uintType ushortType True) =
     Binary I32And (GetLocal 0 none) (I32Const 65535)"
proof -
  have h1: "intType \<in> int32Family" "sbyteType \<in> narrowTypes"
    "intType \<noteq> sbyteType" "sizeT sbyteType \<le> sizeT intType"
    by (simp_all add: int32Family_def narrowTypes_def type_defs)
  have h2: "uintType \<in> int32Family" "ushortType \<in> narrowTypes"
    "uintType \<noteq> ushortType" "sizeT ushortType \<le> sizeT uintType"
    by (simp_all add: int32Family_def narrowTypes_def type_defs)
  have v: "isSigned sbyteType" "\<not> isSigned ushortType" "shift32 sbyteType = 24" "mask32 ushortType = 65535"
    by (simp_all add: isSigned_def shift32_def mask32_def bitwidth_def type_defs)
  show ?thesis
    using h1 h2 v
      narrowing_emits [OF h1, of stateAfterConstruction 1 "GetLocal 0 none" True]
      narrowing_emits [OF h2, of stateAfterConstruction 1 "GetLocal 0 none" True]
    by simp
qed

section \<open>The start function (C3)\<close>

text \<open>
  C3: with no global initializers, a user \<^verbatim>\<open>start\<close> becomes the module start directly and
  no function is added, and without a user \<^verbatim>\<open>start\<close> nothing changes; with global
  initializers, a function of void signature is added whose body is the initializers in
  list order followed, if a user \<^verbatim>\<open>start\<close> exists, by a call of \<^verbatim>\<open>start\<close>, and it is set as
  the module start. The signature cached under \<^verbatim>\<open>"v"\<close>, if there is one, is taken to be the
  void signature, as the key says.
\<close>

theorem start_function_synthesis:
  assumes "\<forall>sig. map_of (signatures c) ''v'' = Some sig \<longrightarrow> ftResult sig = none \<and> ftParams sig = []"
  shows
   "(globalInitializers c = [] \<longrightarrow>
       (\<forall>f. userStartFunction c = Some f \<longrightarrow>
          modStart (module (maybeCompileStartFunction c)) = Some f \<and>
          modFunctions (module (maybeCompileStartFunction c)) = modFunctions (module c)) \<and>
       (userStartFunction c = None \<longrightarrow> maybeCompileStartFunction c = c)) \<and>
    (globalInitializers c \<noteq> [] \<longrightarrow>
       (\<exists>name sig.
          name = (if userStartFunction c \<noteq> None then ''executeGlobalInitializersAndCallStart''
                  else ''executeGlobalInitalizers'') \<and>
          ftResult sig = none \<and> ftParams sig = [] \<and>
          modStart (module (maybeCompileStartFunction c)) = Some name \<and>
          modFunctions (module (maybeCompileStartFunction c)) =
            modFunctions (module c) @
              [\<lparr>funcName = name, funcSignature = sig, funcLocals = [],
                funcBody = startFunctionBody c\<rparr>]))"
proof (intro conjI impI allI)
  fix f assume "globalInitializers c = []" "userStartFunction c = Some f"
  then show "modStart (module (maybeCompileStartFunction c)) = Some f"
    and "modFunctions (module (maybeCompileStartFunction c)) = modFunctions (module c)"
    by (simp_all add: maybeCompileStartFunction_def setStart_def)
next
  assume "globalInitializers c = []" "userStartFunction c = None"
  then show "maybeCompileStartFunction c = c"
    by (simp add: maybeCompileStartFunction_def)
next
  assume ne: "globalInitializers c \<noteq> []"
  obtain sig c1 where os: "obtainSignature c ''v'' none [] = (sig, c1)"
    by (cases "obtainSignature c ''v'' none []")
  from obtainSignature_void [OF assms os]
  have v: "ftResult sig = none" "ftParams sig = []" "modFunctions (module c1) = modFunctions (module c)"
    by simp_all
  show "\<exists>name sig.
          name = (if userStartFunction c \<noteq> None then ''executeGlobalInitializersAndCallStart''
                  else ''executeGlobalInitalizers'') \<and>
          ftResult sig = none \<and> ftParams sig = [] \<and>
          modStart (module (maybeCompileStartFunction c)) = Some name \<and>
          modFunctions (module (maybeCompileStartFunction c)) =
            modFunctions (module c) @
              [\<lparr>funcName = name, funcSignature = sig, funcLocals = [],
                funcBody = startFunctionBody c\<rparr>]"
    using ne os v
    by (cases "userStartFunction c")
       (auto simp: maybeCompileStartFunction_def Let_def addFunction_def setStart_def
          startFunctionBody_def)
qed

text \<open>The theorem with nothing to run, with a user start only, and with a global and a user start.\<close>

theorem start_function_synthesis_witness:
  "map_of (signatures stateAfterConstruction) ''v'' = None \<and>
   maybeCompileStartFunction stateAfterConstruction = stateAfterConstruction \<and>
   modStart (module (maybeCompileStartFunction
      (stateAfterConstruction\<lparr>userStartFunction := Some ''start''\<rparr>))) = Some ''start'' \<and>
   modStart (module (maybeCompileStartFunction
      (stateAfterConstruction\<lparr>globalInitializers := [SetGlobal ''g'' (I32Const 1)],
         userStartFunction := Some ''start''\<rparr>)))
     = Some ''executeGlobalInitializersAndCallStart'' \<and>
   map funcBody (modFunctions (module (maybeCompileStartFunction
      (stateAfterConstruction\<lparr>globalInitializers := [SetGlobal ''g'' (I32Const 1)],
         userStartFunction := Some ''start''\<rparr>))))
     = [Block [] [SetGlobal ''g'' (I32Const 1), Call ''start'' [] none]]"
proof -
  let ?a = "stateAfterConstruction"
  let ?b = "stateAfterConstruction\<lparr>userStartFunction := Some ''start''\<rparr>"
  let ?d = "stateAfterConstruction\<lparr>globalInitializers := [SetGlobal ''g'' (I32Const 1)],
         userStartFunction := Some ''start''\<rparr>"
  have sa: "\<forall>sig. map_of (signatures ?a) ''v'' = Some sig \<longrightarrow> ftResult sig = none \<and> ftParams sig = []"
    and sb: "\<forall>sig. map_of (signatures ?b) ''v'' = Some sig \<longrightarrow> ftResult sig = none \<and> ftParams sig = []"
    and sd: "\<forall>sig. map_of (signatures ?d) ''v'' = Some sig \<longrightarrow> ftResult sig = none \<and> ftParams sig = []"
    by (simp_all add: stateAfterConstruction_def fieldInitializers_def)
  have fa: "globalInitializers ?a = []" "userStartFunction ?a = None"
    "modFunctions (module ?d) = []"
    by (simp_all add: stateAfterConstruction_def fieldInitializers_def emptyModule_def)
  have body: "startFunctionBody ?d = Block [] [SetGlobal ''g'' (I32Const 1), Call ''start'' [] none]"
    by (simp add: startFunctionBody_def)
  have none: "map_of (signatures stateAfterConstruction) ''v'' = None"
    by (simp add: stateAfterConstruction_def fieldInitializers_def)
  show ?thesis
    using none fa body
      start_function_synthesis [OF sa] start_function_synthesis [OF sb]
      start_function_synthesis [OF sd]
    by auto
qed

section \<open>The label of the first loop (C4)\<close>




section \<open>Round trips through a wider type (C5)\<close>

text \<open>
  C5 asks that converting a value of an integer type to a wider type of the same
  signedness and back gives the value again. For a signed target the narrowing code
  shifts right before it shifts left, which clears the low bits instead of extending the
  sign: the sbyte value 5, converted to int and back to sbyte, evaluates to 0.
\<close>

theorem roundtrip_sbyte_int_loses_value:
  "evalI32 (I32Const 5) = Some 5 \<and>
   evalI32 (fst (maybeConvertValue c' n'
       (fst (maybeConvertValue c n (I32Const 5) sbyteType intType ex)) intType sbyteType ex'))
     = Some 0"
  by (simp add: widen_sbyte narrow_sbyte)

section \<open>Shadowed locals (C6)\<close>

text \<open>
  C6 as stated has \<^verbatim>\<open>name.2\<close> as the first alternative of a shadowed name. The counter of
  \<^verbatim>\<open>onVariable\<close> starts at 1: with a local \<open>x\<close> in slot 0, declaring \<open>x\<close> again registers
  \<^verbatim>\<open>x.1\<close> in slot 1, and no \<^verbatim>\<open>x.2\<close>.
\<close>

theorem shadowed_name_gets_suffix_1:
  "map fst (currentLocals (snd (onVariable stateWithLocalX ''x'' intType))) = [''x'', ''x.1''] \<and>
   map_of (currentLocals (snd (onVariable stateWithLocalX ''x'' intType))) ''x.2'' = None \<and>
   fst (onVariable stateWithLocalX ''x'' intType) = 1"
proof -
  have locals: "currentLocals stateWithLocalX = [(''x'', localX)]"
    and idx: "localIndex stateWithLocalX = 1"
    by (simp_all add: stateWithLocalX_def)
  show ?thesis
    unfolding onVariable_def Let_def locals idx uniqueName_x by simp
qed

text \<open>
  C6, amended: when the declared name is already in \<^verbatim>\<open>currentLocals\<close>, \<^verbatim>\<open>onVariable\<close>
  registers the new local under the name suffixed with \<^verbatim>\<open>.k\<close>, for the least \<open>k\<close> from 1 on
  whose name is not in use (the first alternative being \<^verbatim>\<open>name.1\<close>), gives it the slot
  index \<^verbatim>\<open>localIndex\<close>, which it returns, and increments \<^verbatim>\<open>localIndex\<close>.
\<close>

theorem onVariable_shadowed:
  assumes "map_of (currentLocals c) originalName \<noteq> None"
  shows "\<exists>k\<ge>1.
     map_of (currentLocals c) (originalName @ ''.'' @ numberToString k) = None \<and>
     (\<forall>j. 1 \<le> j \<and> j < k \<longrightarrow>
        map_of (currentLocals c) (originalName @ ''.'' @ numberToString j) \<noteq> None) \<and>
     onVariable c originalName type =
       (localIndex c,
        c\<lparr>currentLocals :=
             AList.update (originalName @ ''.'' @ numberToString k)
               \<lparr>varName = originalName @ ''.'' @ numberToString k, varType = type,
                varGlobal = False, varConstant = False, varIndex = localIndex c\<rparr>
               (currentLocals c),
           additionalLocals := additionalLocals c @ [TypeOf type (uintptrSize c)],
           localIndex := localIndex c + 1\<rparr>)"
proof -
  from uniqueName_result [of "currentLocals c" originalName originalName 1] assms
  obtain k where k: "1 \<le> k"
    "uniqueName (currentLocals c) originalName originalName 1
       = originalName @ ''.'' @ numberToString k"
    "map_of (currentLocals c) (originalName @ ''.'' @ numberToString k) = None"
    "\<forall>j. 1 \<le> j \<and> j < k \<longrightarrow>
        map_of (currentLocals c) (originalName @ ''.'' @ numberToString j) \<noteq> None"
    by blast
  have run: "onVariable c originalName type =
       (localIndex c,
        c\<lparr>currentLocals :=
             AList.update (originalName @ ''.'' @ numberToString k)
               \<lparr>varName = originalName @ ''.'' @ numberToString k, varType = type,
                varGlobal = False, varConstant = False, varIndex = localIndex c\<rparr>
               (currentLocals c),
           additionalLocals := additionalLocals c @ [TypeOf type (uintptrSize c)],
           localIndex := localIndex c + 1\<rparr>)"
    unfolding onVariable_def Let_def k(2) by simp
  from k(1,3,4) run show ?thesis by blast
qed

text \<open>The theorem at a function with the local \<open>x\<close>, where \<open>x\<close> is declared again.\<close>

theorem onVariable_shadowed_witness:
  "map_of (currentLocals stateWithLocalX) ''x'' \<noteq> None \<and>
   fst (onVariable stateWithLocalX ''x'' intType) = localIndex stateWithLocalX \<and>
   localIndex (snd (onVariable stateWithLocalX ''x'' intType)) = localIndex stateWithLocalX + 1 \<and>
   (\<exists>k\<ge>1. map fst (currentLocals (snd (onVariable stateWithLocalX ''x'' intType)))
      = [''x'', ''x.'' @ numberToString k])"
proof -
  have h: "map_of (currentLocals stateWithLocalX) ''x'' \<noteq> None"
    by (simp add: stateWithLocalX_def)
  have locals: "currentLocals stateWithLocalX = [(''x'', localX)]"
    by (simp add: stateWithLocalX_def)
  from onVariable_shadowed [OF h, of intType]
  show ?thesis
  proof (elim exE conjE)
    fix k :: nat
    assume k: "1 \<le> k"
      and run: "onVariable stateWithLocalX ''x'' intType =
       (localIndex stateWithLocalX,
        stateWithLocalX\<lparr>currentLocals :=
             AList.update (''x'' @ ''.'' @ numberToString k)
               \<lparr>varName = ''x'' @ ''.'' @ numberToString k, varType = intType,
                varGlobal = False, varConstant = False, varIndex = localIndex stateWithLocalX\<rparr>
               (currentLocals stateWithLocalX),
           additionalLocals := additionalLocals stateWithLocalX
              @ [TypeOf intType (uintptrSize stateWithLocalX)],
           localIndex := localIndex stateWithLocalX + 1\<rparr>)"
    have names: "map fst (currentLocals (snd (onVariable stateWithLocalX ''x'' intType)))
        = [''x'', ''x.'' @ numberToString k]"
      unfolding run by (simp add: locals)
    have i1: "fst (onVariable stateWithLocalX ''x'' intType) = localIndex stateWithLocalX"
      and i2: "localIndex (snd (onVariable stateWithLocalX ''x'' intType))
          = localIndex stateWithLocalX + 1"
      unfolding run by simp_all
    have "\<exists>k\<ge>1. map fst (currentLocals (snd (onVariable stateWithLocalX ''x'' intType)))
      = [''x'', ''x.'' @ numberToString k]"
      using k names by (intro exI [of _ k] conjI)
    with h i1 i2 show ?thesis by (intro conjI)
  qed
qed

section \<open>Negation of a float (C7)\<close>

text \<open>
  C7 asks that prefix minus on a float or double operand emits the negation of the
  lowered operand. The two float branches of \<^verbatim>\<open>compilePrefixUnary\<close> hand the syntax node
  \<^verbatim>\<open>node.operand\<close> to the factory, not the lowered \<^verbatim>\<open>operand\<close> that the integer branches
  use: for a float local \<open>x\<close>, \<^verbatim>\<open>-x\<close> is the negation of the node, while \<open>x\<close> itself lowers
  to \<^verbatim>\<open>get_local 0\<close>.
\<close>

theorem negated_float_local:
  "emitted (compileExpression X stateWithFloatLocal (Identifier 2 ''x'') floatType)
     = Some (GetLocal 0 (TypeOf floatType 4)) \<and>
   emitted (compilePrefixUnary X stateWithFloatLocal 1 MinusToken (Identifier 2 ''x'') floatType)
     = Some (Unary F32Neg (HostObject 2)) \<and>
   Unary F32Neg (HostObject 2) \<noteq> Unary F32Neg (GetLocal 0 (TypeOf floatType 4))"
proof -
  have locals: "map_of (currentLocals stateWithFloatLocal) ''x'' = Some localF"
    by (simp add: stateWithFloatLocal_def)
  have ident: "compileIdentifier stateWithFloatLocal 2 ''x'' floatType =
      (GetLocal 0 (TypeOf floatType 4), setReflectedType stateWithFloatLocal 2 (Some floatType))"
    by (simp add: compileIdentifier_def locals localF_def uintptrSize_stateWithFloatLocal)
  show ?thesis
    by (simp add: ident emitted_def prefixUnaryOf_def getReflectedType_def setReflectedType_def
          Let_def)
qed

section \<open>Mangled names (C8)\<close>

text \<open>
  C8 as stated makes mangling injective on pairs of a source file and a name. The entry
  file and the library file both keep the bare name: a global \<open>x\<close> of \<^verbatim>\<open>module.ts\<close> and a
  global \<open>x\<close> of \<^verbatim>\<open>assembly.d.ts\<close> are both mangled to \<open>x\<close>.
\<close>

theorem entry_and_library_names_collide:
  "(case newCompiler emptyModule [assemblyFile, moduleFile] None of
      Inl e \<Rightarrow> False
    | Inr c \<Rightarrow>
        mangleGlobalName flatPaths c ''x'' moduleFile = Inr ''x'' \<and>
        mangleGlobalName flatPaths c ''x'' assemblyFile = Inr ''x'' \<and>
        (moduleFile, ''x'') \<noteq> (assemblyFile, ''x''))"
proof -
  have "moduleFile \<noteq> assemblyFile"
    by (simp add: moduleFile_def assemblyFile_def)
  then show ?thesis
    by (simp add: newCompiler_program mangleGlobalName_def stateOfProgram_files)
qed

text \<open>
  C8, amended: for names without the path separator (identifiers have none) and a
  compilation with an entry file, two pairs of a file and a name get the same mangled name
  exactly when the names are equal and the files have the same prefix, that is, both are
  the entry or the library file, or both are other files whose relative paths are equal
  after the cleaning.
\<close>

theorem mangling_injective_up_to_prefix:
  assumes "entryFile c = Some entry"
    and "sep P \<notin> set name1" and "sep P \<notin> set name2"
  shows "(mangleGlobalName P c name1 file1 = mangleGlobalName P c name2 file2) =
     (name1 = name2 \<and> importPrefix P c file1 = importPrefix P c file2)"
proof -
  define imported where
    "imported f = (Some f \<noteq> entryFile c \<and> Some f \<noteq> libraryFile c)" for f :: SourceFileId
  define pre where
    "pre f = filter keptChar (relative P (dirname P (normalize P (fileName entry)))
                (normalize P (fileName f)))" for f :: SourceFileId
  have m: "mangleGlobalName P c n f = (if imported f then Inr (pre f @ [sep P] @ n) else Inr n)"
    for n f
    by (simp add: mangleGlobalName_def imported_def pre_def assms(1))
  have p: "importPrefix P c f = (if imported f then Some (pre f) else None)" for f
    by (simp add: importPrefix_def imported_def pre_def assms(1))
  have no1: "pre f @ [sep P] @ n \<noteq> name1" for f n
    using assms(2) by (metis in_set_conv_decomp append_Cons append_Nil)
  have no2: "pre f @ [sep P] @ n \<noteq> name2" for f n
    using assms(3) by (metis in_set_conv_decomp append_Cons append_Nil)
  show ?thesis
  proof (cases "imported file1")
    case i1: True
    show ?thesis
    proof (cases "imported file2")
      case True
      with i1 show ?thesis
        using split_at_separator [OF assms(2,3), of "pre file1" "pre file2"]
        by (auto simp: m p)
    next
      case False
      with i1 show ?thesis using no2 [of file1 name1] by (simp add: m p)
    qed
  next
    case n1: False
    show ?thesis
    proof (cases "imported file2")
      case True
      with n1 show ?thesis using no1 [of file2 name2] by (auto simp: m p)
    next
      case False
      with n1 show ?thesis by (simp add: m p)
    qed
  qed
qed

text \<open>The theorem at the name \<open>x\<close> in the imported files \<^verbatim>\<open>a.ts\<close> and \<^verbatim>\<open>b.ts\<close>.\<close>

theorem mangling_injective_up_to_prefix_witness:
  "entryFile stateOfProgram = Some moduleFile \<and>
   sep flatPaths \<notin> set ''x'' \<and>
   importPrefix flatPaths stateOfProgram fileA = Some ''a.ts'' \<and>
   importPrefix flatPaths stateOfProgram fileB = Some ''b.ts'' \<and>
   mangleGlobalName flatPaths stateOfProgram ''x'' fileA
     \<noteq> mangleGlobalName flatPaths stateOfProgram ''x'' fileB"
proof -
  have s: "sep flatPaths \<notin> set ''x''" by (simp add: flatPaths_def)
  have a: "importPrefix flatPaths stateOfProgram fileA = Some ''a.ts''"
    by (simp add: importPrefix_def stateOfProgram_files flatPaths_def fileA_def moduleFile_def
        assemblyFile_def keptChar_def)
  have b: "importPrefix flatPaths stateOfProgram fileB = Some ''b.ts''"
    by (simp add: importPrefix_def stateOfProgram_files flatPaths_def fileB_def moduleFile_def
        assemblyFile_def keptChar_def)
  show ?thesis
    using s a b stateOfProgram_files(1)
      mangling_injective_up_to_prefix [OF stateOfProgram_files(1) s s, of fileA fileB]
    by simp
qed

section \<open>The pointer size (C9)\<close>

text \<open>
  C9 as stated makes every \<^verbatim>\<open>uintptrSize\<close> other than 4 and 8 a construction error. The
  constructor tests \<^verbatim>\<open>this.options.uintptrSize &&\<close> first, so a size that counts as false
  passes: with 0 and with \<^verbatim>\<open>NaN\<close> the construction succeeds, and the getter \<^verbatim>\<open>uintptrSize\<close>
  then answers 4.
\<close>

theorem constructor_accepts_falsy_sizes:
  "(case newCompiler emptyModule [] (Some (sizeOptions (Integer 0))) of
      Inl e \<Rightarrow> False
    | Inr c \<Rightarrow> uintptrSize c = 4 \<and> uintptrType c = uintptrType32) \<and>
   (case newCompiler emptyModule [] (Some (sizeOptions NaN)) of
      Inl e \<Rightarrow> False
    | Inr c \<Rightarrow> uintptrSize c = 4 \<and> uintptrType c = uintptrType32)"
  by (simp add: newCompiler_def sizeOptions_def truthy_def uintptrSize_def fieldInitializers_def)

text \<open>
  C9, amended: construction throws exactly when \<^verbatim>\<open>uintptrSize\<close> is given, counts as true
  (is neither 0 nor \<^verbatim>\<open>NaN\<close>) and is neither 4 nor 8; otherwise it succeeds, the pointer size
  is 8 if 8 was given and 4 if the option is absent, 0, \<^verbatim>\<open>NaN\<close> or 4, and \<^verbatim>\<open>uintptrType\<close> is
  \<^verbatim>\<open>uintptrType32\<close> when the pointer size is 4 and \<^verbatim>\<open>uintptrType64\<close> otherwise.
\<close>

theorem constructor_uintptrSize:
  "((\<exists>x. requestedSize given = Some x \<and> truthy x \<and> x \<noteq> Integer 4 \<and> x \<noteq> Integer 8) \<longrightarrow>
      newCompiler lib files given = Inl (JsError ''unsupported uintptrSize'')) \<and>
   (\<not> (\<exists>x. requestedSize given = Some x \<and> truthy x \<and> x \<noteq> Integer 4 \<and> x \<noteq> Integer 8) \<longrightarrow>
      (\<exists>c. newCompiler lib files given = Inr c \<and>
           uintptrSize c = (if requestedSize given = Some (Integer 8) then 8 else 4) \<and>
           uintptrType c = (if uintptrSize c = 4 then uintptrType32 else uintptrType64)))"
proof (intro conjI impI)
  assume "\<exists>x. requestedSize given = Some x \<and> truthy x \<and> x \<noteq> Integer 4 \<and> x \<noteq> Integer 8"
  then show "newCompiler lib files given = Inl (JsError ''unsupported uintptrSize'')"
    by (auto simp: newCompiler_def requestedSize_def noOptions_def split: option.splits)
next
  assume ok: "\<not> (\<exists>x. requestedSize given = Some x \<and> truthy x \<and> x \<noteq> Integer 4 \<and> x \<noteq> Integer 8)"
  define opts where "opts = (case given of None \<Rightarrow> noOptions | Some x \<Rightarrow> x)"
  have req: "opt_uintptrSize opts = requestedSize given"
    by (simp add: opts_def requestedSize_def noOptions_def split: option.splits)
  have cases: "requestedSize given \<in> {None, Some (Integer 0), Some NaN, Some (Integer 4), Some (Integer 8)}"
  proof (cases "requestedSize given")
    case None
    then show ?thesis by simp
  next
    case (Some x)
    with ok have "\<not> truthy x \<or> x = Integer 4 \<or> x = Integer 8" by simp
    then have "x \<in> {Integer 0, NaN, Integer 4, Integer 8}"
      by (cases x) (auto simp: truthy_def)
    with Some show ?thesis by auto
  qed
  define m where "m = (if opt_noLib opts = Some True then emptyModule else lib)"
  define c0 where "c0 = fieldInitializers opts m voidType"
  define c1 where "c1 = c0\<lparr>uintptrType := (if uintptrSize c0 = 4 then uintptrType32 else uintptrType64)\<rparr>"
  have guard: "\<not> (case opt_uintptrSize opts of
            None \<Rightarrow> False
          | Some x \<Rightarrow> truthy x \<and> x \<noteq> Integer 4 \<and> x \<noteq> Integer 8)"
    using ok req by (cases "requestedSize given") auto
  have run: "newCompiler lib files given = Inr (assignFiles (rev files) c1)"
    unfolding newCompiler_def Let_def opts_def [symmetric]
    using guard by (simp add: m_def c0_def c1_def)
  have size0: "uintptrSize c0 = (if requestedSize given = Some (Integer 8) then 8 else 4)"
    using cases req by (auto simp: uintptrSize_def truthy_def c0_def fieldInitializers_def)
  have size1: "uintptrSize c1 = uintptrSize c0"
    by (simp add: uintptrSize_def c1_def)
  have ty: "uintptrType c1 = (if uintptrSize c0 = 4 then uintptrType32 else uintptrType64)"
    by (simp add: c1_def)
  show "\<exists>c. newCompiler lib files given = Inr c \<and>
           uintptrSize c = (if requestedSize given = Some (Integer 8) then 8 else 4) \<and>
           uintptrType c = (if uintptrSize c = 4 then uintptrType32 else uintptrType64)"
    using run size0 size1 ty
    by (intro exI [of _ "assignFiles (rev files) c1"])
       (simp add: uintptrSize_assignFiles assignFiles_keeps)
qed

text \<open>The theorem at the sizes 3, 8 and \<^verbatim>\<open>NaN\<close>.\<close>

theorem constructor_uintptrSize_witness:
  "truthy (Integer 3) \<and>
   newCompiler emptyModule [] (Some (sizeOptions (Integer 3)))
     = Inl (JsError ''unsupported uintptrSize'') \<and>
   (\<exists>c. newCompiler emptyModule [] (Some (sizeOptions (Integer 8))) = Inr c \<and>
        uintptrSize c = 8 \<and> uintptrType c = uintptrType64) \<and>
   \<not> truthy NaN \<and>
   (\<exists>c. newCompiler emptyModule [] (Some (sizeOptions NaN)) = Inr c \<and>
        uintptrSize c = 4 \<and> uintptrType c = uintptrType32)"
proof -
  have r: "requestedSize (Some (sizeOptions x)) = Some x" for x
    by (simp add: requestedSize_def sizeOptions_def)
  have t: "truthy (Integer 3)" "truthy (Integer 8)" "\<not> truthy NaN"
    by (simp_all add: truthy_def)
  have a: "\<exists>x. requestedSize (Some (sizeOptions (Integer 3))) = Some x \<and> truthy x \<and>
      x \<noteq> Integer 4 \<and> x \<noteq> Integer 8"
    by (simp add: r t)
  have b: "\<not> (\<exists>x. requestedSize (Some (sizeOptions (Integer 8))) = Some x \<and> truthy x \<and>
      x \<noteq> Integer 4 \<and> x \<noteq> Integer 8)"
    by (simp add: r)
  have n: "\<not> (\<exists>x. requestedSize (Some (sizeOptions NaN)) = Some x \<and> truthy x \<and>
      x \<noteq> Integer 4 \<and> x \<noteq> Integer 8)"
    by (simp add: r t)
  have three: "newCompiler emptyModule [] (Some (sizeOptions (Integer 3)))
      = Inl (JsError ''unsupported uintptrSize'')"
    using a constructor_uintptrSize [of "Some (sizeOptions (Integer 3))" emptyModule "[]"]
    by blast
  have eight: "\<exists>c. newCompiler emptyModule [] (Some (sizeOptions (Integer 8))) = Inr c \<and>
        uintptrSize c = 8 \<and> uintptrType c = uintptrType64"
    using b constructor_uintptrSize [of "Some (sizeOptions (Integer 8))" emptyModule "[]"]
    by (auto simp: r)
  have nan: "\<exists>c. newCompiler emptyModule [] (Some (sizeOptions NaN)) = Inr c \<and>
        uintptrSize c = 4 \<and> uintptrType c = uintptrType32"
    using n constructor_uintptrSize [of "Some (sizeOptions NaN)" emptyModule "[]"]
    by (auto simp: r)
  from t(1,3) three eight nan show ?thesis by (intro conjI)
qed

section \<open>Conversion between types of one kind (C10)\<close>

text \<open>
  C10: when the kinds of the two types are equal, \<^verbatim>\<open>maybeConvertValue\<close> returns the
  expression it was given and leaves the state, and so the diagnostics, as they were,
  whatever the \<^verbatim>\<open>explicit\<close> flag is.
\<close>

theorem same_kind_identity:
  "kind fromType = kind toType \<Longrightarrow>
     maybeConvertValue c node expr fromType toType explicit = (expr, c) \<and>
     diagnostics (snd (maybeConvertValue c node expr fromType toType explicit)) = diagnostics c"
  by (subst maybeConvertValue.simps, subst maybeConvertValue.simps) simp

text \<open>The theorem at the two pointer types, which share the kind \<^verbatim>\<open>uintptr\<close>.\<close>

theorem same_kind_identity_witness:
  "kind uintptrType32 = kind uintptrType64 \<and>
   maybeConvertValue stateAfterConstruction 7 (I32Const 3) uintptrType32 uintptrType64 False
     = (I32Const 3, stateAfterConstruction) \<and>
   diagnostics (snd (maybeConvertValue stateAfterConstruction 7 (I32Const 3)
      uintptrType32 uintptrType64 False)) = []"
proof -
  have k: "kind uintptrType32 = kind uintptrType64" by (simp add: type_defs)
  show ?thesis
    using k same_kind_identity [OF k, of stateAfterConstruction 7 "I32Const 3" False]
    by (simp add: stateAfterConstruction_def fieldInitializers_def)
qed

end
